theory Spec2Isabelle
  imports Main
begin

section \<open>Python values\<close>

text \<open>
  The client passes around what \<^verbatim>\<open>response.json()\<close> decodes and what its callers
  hand in: \<^verbatim>\<open>None\<close>, booleans, numbers, strings, lists and dicts. A Python
  \<^verbatim>\<open>float\<close> is identified by its \<^verbatim>\<open>repr\<close> (the shortest decimal string that
  reads back as the same float, which is also what \<^verbatim>\<open>str\<close> returns and what the
  JSON encoder writes): \<open>PFloat ''5.8''\<close> is the float \<^verbatim>\<open>5.8\<close>. A dict is the list
  of its items in insertion order, with distinct keys. A string is the list of its
  characters. \<^verbatim>\<open>str.upper\<close> follows the Unicode tables of the interpreter and is not
  modelled: the methods that use it take it as the parameter \<open>upper\<close>.
\<close>

datatype pynum = PInt int | PFloat string

datatype json =
    JNull
  | JBool bool
  | JNum pynum
  | JStr string
  | JArr "json list"
  | JObj "(string \<times> json) list"

text \<open>
  The exceptions that can travel through the client. \<open>RequestException\<close> stands for
  \<^verbatim>\<open>requests.RequestException\<close> and all its subclasses (connection errors,
  timeouts, \<^verbatim>\<open>HTTPError\<close>, the library's \<^verbatim>\<open>JSONDecodeError\<close>); its argument is
  \<^verbatim>\<open>str(e)\<close>. \<open>RuntimeError\<close> carries its message, \<open>UnboundLocalError\<close> the
  name of the local variable that was read before any assignment.
\<close>

datatype exn =
    RequestException string
  | RuntimeError string
  | TypeError
  | KeyError
  | IndexError
  | AttributeError
  | UnboundLocalError string

subsection \<open>\<^verbatim>\<open>str\<close> and \<^verbatim>\<open>repr\<close>\<close>

definition digit_char :: "nat \<Rightarrow> char" where
  "digit_char n = ''0123456789abcdef'' ! (n mod 16)"

function str_nat :: "nat \<Rightarrow> string" where
  "str_nat n = (if n < 10 then [digit_char n] else str_nat (n div 10) @ [digit_char (n mod 10)])"
  by pat_completeness auto
termination
  by (relation "measure id") auto

declare str_nat.simps [simp del]

definition str_int :: "int \<Rightarrow> string" where
  "str_int i = (if i < 0 then CHR ''-'' # str_nat (nat (- i)) else str_nat (nat i))"

definition str_num :: "pynum \<Rightarrow> string" where
  "str_num x = (case x of PInt i \<Rightarrow> str_int i | PFloat r \<Rightarrow> r)"

text \<open>
  \<^verbatim>\<open>repr\<close> of a string: single quotes, unless the string holds a single quote and no
  double quote; the quote in use and the backslash are escaped, tab, newline and carriage
  return are written \<^verbatim>\<open>\t\<close>, \<^verbatim>\<open>\n\<close>, \<^verbatim>\<open>\r\<close>, the other control characters
  \<^verbatim>\<open>\xhh\<close>.
\<close>

definition repr_quote :: "string \<Rightarrow> char" where
  "repr_quote s = (if CHR 0x27 \<in> set s \<and> CHR 0x22 \<notin> set s then CHR 0x22 else CHR 0x27)"

definition repr_char :: "char \<Rightarrow> char \<Rightarrow> string" where
  "repr_char q c =
     (if c = q \<or> c = CHR 0x5C then [CHR 0x5C, c]
      else if c = CHR 0x09 then [CHR 0x5C, CHR ''t'']
      else if c = CHR 0x0A then [CHR 0x5C, CHR ''n'']
      else if c = CHR 0x0D then [CHR 0x5C, CHR ''r'']
      else if (of_char c :: nat) < 32 \<or> (of_char c :: nat) = 127
        then [CHR 0x5C, CHR ''x'', digit_char (of_char c div 16), digit_char (of_char c mod 16)]
      else [c])"

definition repr_str :: "string \<Rightarrow> string" where
  "repr_str s = (let q = repr_quote s in [q] @ concat (map (repr_char q) s) @ [q])"

fun py_repr :: "json \<Rightarrow> string"
  and repr_elems :: "json list \<Rightarrow> string"
  and repr_items :: "(string \<times> json) list \<Rightarrow> string" where
  "py_repr JNull = ''None''"
| "py_repr (JBool b) = (if b then ''True'' else ''False'')"
| "py_repr (JNum x) = str_num x"
| "py_repr (JStr s) = repr_str s"
| "py_repr (JArr xs) = ''['' @ repr_elems xs @ '']''"
| "py_repr (JObj kvs) = ''{'' @ repr_items kvs @ ''}''"
| "repr_elems [] = []"
| "repr_elems [x] = py_repr x"
| "repr_elems (x # y # ys) = py_repr x @ '', '' @ repr_elems (y # ys)"
| "repr_items [] = []"
| "repr_items [(k, v)] = repr_str k @ '': '' @ py_repr v"
| "repr_items ((k, v) # kv # kvs) = repr_str k @ '': '' @ py_repr v @ '', '' @ repr_items (kv # kvs)"

definition py_str :: "json \<Rightarrow> string" where
  \<comment> \<open>\<^verbatim>\<open>str(v)\<close>, which is also what \<^verbatim>\<open>{v}\<close> inserts into an f-string.\<close>
  "py_str v = (case v of JStr s \<Rightarrow> s | _ \<Rightarrow> py_repr v)"

subsection \<open>String methods\<close>

fun py_split :: "char \<Rightarrow> string \<Rightarrow> string list" where
  \<comment> \<open>\<^verbatim>\<open>s.split(sep)\<close> for a separator of one character.\<close>
  "py_split sep [] = [[]]"
| "py_split sep (c # cs) =
     (if c = sep then [] # py_split sep cs
      else (case py_split sep cs of [] \<Rightarrow> [[c]] | p # ps \<Rightarrow> (c # p) # ps))"

subsection \<open>Operations on decoded values\<close>

definition py_get :: "json \<Rightarrow> string \<Rightarrow> json \<Rightarrow> exn + json" where
  \<comment> \<open>\<^verbatim>\<open>v.get(k, d)\<close>: only a dict has the method.\<close>
  "py_get v k d =
     (case v of
        JObj kvs \<Rightarrow> Inr (case map_of kvs k of None \<Rightarrow> d | Some x \<Rightarrow> x)
      | _ \<Rightarrow> Inl AttributeError)"

definition py_getitem :: "json \<Rightarrow> string \<Rightarrow> exn + json" where
  \<comment> \<open>\<^verbatim>\<open>v[k]\<close> for a string \<open>k\<close>: a dict looks the key up; a list, a string and the
      scalars raise \<^verbatim>\<open>TypeError\<close>.\<close>
  "py_getitem v k =
     (case v of
        JObj kvs \<Rightarrow> (case map_of kvs k of None \<Rightarrow> Inl KeyError | Some x \<Rightarrow> Inr x)
      | _ \<Rightarrow> Inl TypeError)"

definition py_iter :: "json \<Rightarrow> exn + json list" where
  \<comment> \<open>What \<^verbatim>\<open>for x in v\<close> walks over: a list's elements, a dict's keys, a string's
      characters; the scalars are not iterable.\<close>
  "py_iter v =
     (case v of
        JArr xs \<Rightarrow> Inr xs
      | JObj kvs \<Rightarrow> Inr (map (\<lambda>kv. JStr (fst kv)) kvs)
      | JStr s \<Rightarrow> Inr (map (\<lambda>c. JStr [c]) s)
      | _ \<Rightarrow> Inl TypeError)"

section \<open>The HTTP library\<close>

text \<open>
  A request is what the client hands to \<^verbatim>\<open>requests.get\<close>, \<^verbatim>\<open>post\<close>,
  \<^verbatim>\<open>patch\<close> or \<^verbatim>\<open>delete\<close>: the URL and the keyword arguments \<^verbatim>\<open>headers\<close>,
  \<^verbatim>\<open>params\<close> and \<^verbatim>\<open>data\<close> (a form-encoded body) or \<^verbatim>\<open>json\<close> (a JSON body).
\<close>

datatype verb = GET | POST | PATCH | DELETE

datatype payload = NoBody | FormData "(string \<times> string) list" | JsonBody json

record request =
  rq_verb :: verb
  rq_url :: string
  rq_headers :: "(string \<times> string) list"
  rq_params :: "(string \<times> json) list"
  rq_body :: payload

text \<open>
  A response has its status code, reason phrase and URL, and its body: the decoded JSON,
  or the decoder's message when the body is not JSON.
\<close>

record response =
  status_code :: nat
  reason :: string
  resp_url :: string
  content :: "string + json"

text \<open>
  The call either raises (a connection error, a timeout: a \<^verbatim>\<open>RequestException\<close> with
  the given message) or returns a response. The remote side is any function from the
  requests sent so far, the current one last, to the outcome of the current one.
\<close>

datatype outcome = Raised string | Returned response

type_synonym server = "request list \<Rightarrow> outcome"

definition raise_for_status :: "response \<Rightarrow> exn + unit" where
  \<comment> \<open>\<^verbatim>\<open>Response.raise_for_status\<close>: an \<^verbatim>\<open>HTTPError\<close> for a 4xx or 5xx status.\<close>
  "raise_for_status r =
     (if 400 \<le> status_code r \<and> status_code r < 500
        then Inl (RequestException
               (str_nat (status_code r) @ '' Client Error: '' @ reason r @ '' for url: '' @ resp_url r))
      else if 500 \<le> status_code r \<and> status_code r < 600
        then Inl (RequestException
               (str_nat (status_code r) @ '' Server Error: '' @ reason r @ '' for url: '' @ resp_url r))
      else Inr ())"

definition response_json :: "response \<Rightarrow> exn + json" where
  \<comment> \<open>\<^verbatim>\<open>Response.json\<close>: the library's \<^verbatim>\<open>JSONDecodeError\<close> is a
      \<^verbatim>\<open>RequestException\<close> (from version 2.27 of the library on).\<close>
  "response_json r = (case content r of Inl m \<Rightarrow> Inl (RequestException m) | Inr v \<Rightarrow> Inr v)"

section \<open>The client\<close>

definition api_v1 :: string where
  "api_v1 = ''https://internal.cnheat.cambiumnetworks.com/api/v1/''"

record cnHeat =
  client_id :: string
  client_secret :: string
  base_endpoint :: string
  token :: json
  headers :: "(string \<times> string) list"
  sites :: json
  predictions :: json
  users :: json

text \<open>
  A method runs on the client object and on the network: \<open>sent\<close> is the list of the
  requests issued so far, oldest first. A method returns what the Python method returns
  or the exception it raises, and the state it leaves.
\<close>

record world =
  self :: cnHeat
  sent :: "request list"

type_synonym 'a result = "(exn + 'a) \<times> world"

definition requests_call :: "server \<Rightarrow> request \<Rightarrow> world \<Rightarrow> response result" where
  \<comment> \<open>\<^verbatim>\<open>requests.get(...)\<close> and its siblings.\<close>
  "requests_call srv rq w =
     (let w' = w\<lparr>sent := sent w @ [rq]\<rparr> in
      (case srv (sent w') of Raised m \<Rightarrow> Inl (RequestException m) | Returned r \<Rightarrow> Inr r, w'))"

definition request_json :: "server \<Rightarrow> request \<Rightarrow> world \<Rightarrow> json result" where
  \<comment> \<open>The three lines every method starts from:
      \<^verbatim>\<open>response = requests.get(...); response.raise_for_status(); response.json()\<close>.\<close>
  "request_json srv rq w =
     (case requests_call srv rq w of
        (Inl e, w') \<Rightarrow> (Inl e, w')
      | (Inr r, w') \<Rightarrow>
          (case raise_for_status r of
             Inl e \<Rightarrow> (Inl e, w')
           | Inr _ \<Rightarrow> (response_json r, w')))"

definition reraise :: "string \<Rightarrow> exn + 'a \<Rightarrow> exn + 'a" where
  \<comment> \<open>\<^verbatim>\<open>except requests.RequestException as e: raise RuntimeError(f"{prefix}: {e}")\<close>;
      any other exception passes.\<close>
  "reraise prefix r =
     (case r of
        Inl (RequestException m) \<Rightarrow> Inl (RuntimeError (prefix @ '': '' @ m))
      | _ \<Rightarrow> r)"

definition objects :: "exn + json \<Rightarrow> exn + json" where
  \<comment> \<open>\<^verbatim>\<open>.get('objects', [])\<close> on the decoded response, inside the \<^verbatim>\<open>try\<close>.\<close>
  "objects r = (case r of Inl e \<Rightarrow> Inl e | Inr v \<Rightarrow> py_get v ''objects'' (JArr []))"

definition authorized :: "world \<Rightarrow> verb \<Rightarrow> string \<Rightarrow> payload \<Rightarrow> request" where
  \<comment> \<open>A request to \<^verbatim>\<open>f"{self.base_endpoint}{path}"\<close> with
      \<^verbatim>\<open>headers=self.headers\<close>.\<close>
  "authorized w v path b =
     \<lparr>rq_verb = v, rq_url = base_endpoint (self w) @ path, rq_headers = headers (self w),
      rq_params = [], rq_body = b\<rparr>"

definition authenticate :: "server \<Rightarrow> world \<Rightarrow> json result" where
  "authenticate srv w =
     (case request_json srv
             \<lparr>rq_verb = POST, rq_url = base_endpoint (self w) @ ''oauth/token'',
              rq_headers = [], rq_params = [],
              rq_body = FormData [(''client_id'', client_id (self w)),
                                  (''client_secret'', client_secret (self w))]\<rparr> w of
        (r, w') \<Rightarrow>
          (reraise ''Authentication failed''
             (case r of Inl e \<Rightarrow> Inl e | Inr v \<Rightarrow> py_get v ''access_token'' JNull), w'))"

definition get_credits :: "server \<Rightarrow> world \<Rightarrow> json result" where
  "get_credits srv w =
     (case request_json srv (authorized w GET ''credits'' NoBody) w of
        (r, w') \<Rightarrow> (reraise ''Failed to fetch credits'' r, w'))"

definition get_antennas :: "server \<Rightarrow> pynum \<Rightarrow> world \<Rightarrow> json result" where
  "get_antennas srv freq w =
     (case request_json srv
             ((authorized w GET ''antennas'' NoBody)\<lparr>rq_params := [(''frequency'', JNum freq)]\<rparr>) w of
        (r, w') \<Rightarrow> (reraise ''Failed to fetch antennas'' (objects r), w'))"

definition get_sites :: "server \<Rightarrow> world \<Rightarrow> json result" where
  \<comment> \<open>Defined here, ahead of its place in the source: \<^verbatim>\<open>create_radio\<close> calls it.\<close>
  "get_sites srv w =
     (case request_json srv (authorized w GET ''sites'' NoBody) w of
        (r, w') \<Rightarrow> (reraise ''Failed to fetch sites'' (objects r), w'))"

subsection \<open>Radios\<close>

definition get_site_radios :: "server \<Rightarrow> string \<Rightarrow> world \<Rightarrow> json result" where
  \<comment> \<open>The handler's message reads \<^verbatim>\<open>self.sites[site_id]['name']\<close>; what that
      expression raises leaves the handler as it is.\<close>
  "get_site_radios srv site_id w =
     (case request_json srv (authorized w GET (''radios/'' @ site_id) NoBody) w of
        (r, w') \<Rightarrow>
          (case objects r of
             Inl (RequestException m) \<Rightarrow>
               (case py_getitem (sites (self w')) site_id of
                  Inl e \<Rightarrow> Inl e
                | Inr s \<Rightarrow>
                    (case py_getitem s ''name'' of
                       Inl e \<Rightarrow> Inl e
                     | Inr n \<Rightarrow>
                         Inl (RuntimeError (''Failed to fetch '' @ py_str n @ '' radios: '' @ m))))
           | r' \<Rightarrow> r', w'))"

definition get_radio :: "server \<Rightarrow> string \<Rightarrow> world \<Rightarrow> json result" where
  "get_radio srv radio_id w =
     (case request_json srv (authorized w GET (''radio/'' @ radio_id) NoBody) w of
        (r, w') \<Rightarrow> (reraise ''Failed to fetch radio'' r, w'))"

definition delete_radio :: "server \<Rightarrow> string \<Rightarrow> world \<Rightarrow> json result" where
  "delete_radio srv radio_id w =
     (case request_json srv (authorized w DELETE (''radio/'' @ radio_id) NoBody) w of
        (r, w') \<Rightarrow> (reraise ''Failed to delete radio'' r, w'))"

text \<open>
  The keyword arguments of \<^verbatim>\<open>create_radio\<close> and \<^verbatim>\<open>update_radio\<close>: \<open>None\<close> is an
  argument the caller left out (for \<^verbatim>\<open>radioName\<close> also an explicit \<^verbatim>\<open>None\<close>, the
  default).
\<close>

record radio_kwargs =
  aglHeightMeters :: "pynum option"
  radioName :: "string option"
  folliageTuning :: "pynum option"
  arHeightMeters :: "pynum option"
  radiusMeters :: "pynum option"
  smGain :: "pynum option"
  tilt :: "pynum option"
  txClearanceMeters :: "pynum option"
  txPowerDbm :: "pynum option"

definition required_only :: radio_kwargs where
  "required_only =
     \<lparr>aglHeightMeters = None, radioName = None, folliageTuning = None, arHeightMeters = None,
      radiusMeters = None, smGain = None, tilt = None, txClearanceMeters = None,
      txPowerDbm = None\<rparr>"

definition or_default :: "'a option \<Rightarrow> 'a \<Rightarrow> 'a" where
  "or_default a d = (case a of None \<Rightarrow> d | Some v \<Rightarrow> v)"

definition radio_data :: "string \<Rightarrow> string \<Rightarrow> pynum \<Rightarrow> pynum \<Rightarrow> radio_kwargs \<Rightarrow> json" where
  \<comment> \<open>The dict \<^verbatim>\<open>data\<close> of \<^verbatim>\<open>create_radio\<close> and of \<^verbatim>\<open>update_radio\<close> (the same
      literal in both), with the defaults of their signatures (the same in both).\<close>
  "radio_data antennaId name azimuth freq kw =
     JObj [(''antenna'', JStr antennaId),
           (''name'', JStr name),
           (''azimuth'', JNum azimuth),
           (''foliage_tuning'', JNum (or_default (folliageTuning kw) (PInt (- 1)))),
           (''frequency(ghz)'', JNum freq),
           (''height(m)'', JNum (or_default (aglHeightMeters kw) (PInt 20))),
           (''height_rooftop(m)'', JNum (or_default (arHeightMeters kw) (PInt 0))),
           (''radius(m)'', JNum (or_default (radiusMeters kw) (PInt 12875))),
           (''sm_gain(dbi)'', JNum (or_default (smGain kw) (PFloat ''18.5''))),
           (''tilt'', JNum (or_default (tilt kw) (PInt (- 2)))),
           (''txclearance(m)'', JNum (or_default (txClearanceMeters kw) (PInt 30))),
           (''txpower(dbm)'', JNum (or_default (txPowerDbm kw) (PFloat ''27.2'')))]"

fun lookup_loop :: "json list \<Rightarrow> string \<Rightarrow> string \<Rightarrow> exn + json option" where
  \<comment> \<open>\<^verbatim>\<open>for x in xs: if x['id'] == wanted: var = x[field]; break\<close>: the value
      assigned to \<^verbatim>\<open>var\<close>, or \<open>None\<close> when the loop ends with \<^verbatim>\<open>var\<close> unassigned.\<close>
  "lookup_loop [] wanted field = Inr None"
| "lookup_loop (x # xs) wanted field =
     (case py_getitem x ''id'' of
        Inl e \<Rightarrow> Inl e
      | Inr i \<Rightarrow>
          if i = JStr wanted
          then (case py_getitem x field of Inl e \<Rightarrow> Inl e | Inr v \<Rightarrow> Inr (Some v))
          else lookup_loop xs wanted field)"

definition local_var :: "string \<Rightarrow> json option \<Rightarrow> exn + json" where
  \<comment> \<open>Reading a local variable that a loop may have left unassigned.\<close>
  "local_var name v = (case v of None \<Rightarrow> Inl (UnboundLocalError name) | Some x \<Rightarrow> Inr x)"

definition split0 :: "char \<Rightarrow> json \<Rightarrow> exn + string" where
  \<comment> \<open>\<^verbatim>\<open>v.split(sep)[0]\<close>: only a string has the method.\<close>
  "split0 sep v =
     (case v of
        JStr s \<Rightarrow> (case py_split sep s of [] \<Rightarrow> Inl IndexError | p # _ \<Rightarrow> Inr p)
      | _ \<Rightarrow> Inl AttributeError)"

definition upper_of :: "(string \<Rightarrow> string) \<Rightarrow> json \<Rightarrow> exn + string" where
  \<comment> \<open>\<^verbatim>\<open>v.upper()\<close>: only a string has the method.\<close>
  "upper_of upper v = (case v of JStr s \<Rightarrow> Inr (upper s) | _ \<Rightarrow> Inl AttributeError)"

definition format_name ::
  "(string \<Rightarrow> string) \<Rightarrow> json option \<Rightarrow> pynum \<Rightarrow> pynum \<Rightarrow> json option \<Rightarrow> exn + string" where
  \<comment> \<open>The f-string of line 176, its fields evaluated from left to right.\<close>
  "format_name upper antenna_name azimuth freq site_name =
     (case local_var ''antenna_name'' antenna_name of
        Inl e \<Rightarrow> Inl e
      | Inr an \<Rightarrow>
          (case split0 CHR ''-'' an of
             Inl e \<Rightarrow> Inl e
           | Inr prefix \<Rightarrow>
               (case split0 CHR ''.'' (JStr (str_num freq)) of
                  Inl e \<Rightarrow> Inl e
                | Inr ghz \<Rightarrow>
                    (case local_var ''site_name'' site_name of
                       Inl e \<Rightarrow> Inl e
                     | Inr sn \<Rightarrow>
                         (case upper_of upper sn of
                            Inl e \<Rightarrow> Inl e
                          | Inr up \<Rightarrow>
                              Inr (''AP-'' @ prefix @ ''-'' @ str_num azimuth @ ''-'' @ ghz
                                   @ '' GHZ.'' @ up))))))"

definition default_name ::
  "(string \<Rightarrow> string) \<Rightarrow> json \<Rightarrow> json \<Rightarrow> string \<Rightarrow> string \<Rightarrow> pynum \<Rightarrow> pynum \<Rightarrow> exn + string" where
  \<comment> \<open>Lines 168 to 176: the two lookup loops, then the f-string.\<close>
  "default_name upper sts ants site_id antennaId azimuth freq =
     (case py_iter sts of
        Inl e \<Rightarrow> Inl e
      | Inr ss \<Rightarrow>
          (case lookup_loop ss site_id ''name'' of
             Inl e \<Rightarrow> Inl e
           | Inr site_name \<Rightarrow>
               (case py_iter ants of
                  Inl e \<Rightarrow> Inl e
                | Inr as \<Rightarrow>
                    (case lookup_loop as antennaId ''antenna'' of
                       Inl e \<Rightarrow> Inl e
                     | Inr antenna_name \<Rightarrow>
                         format_name upper antenna_name azimuth freq site_name))))"

definition create_radio ::
  "(string \<Rightarrow> string) \<Rightarrow> server \<Rightarrow> string \<Rightarrow> pynum \<Rightarrow> string \<Rightarrow> pynum \<Rightarrow> radio_kwargs
     \<Rightarrow> world \<Rightarrow> json result" where
  "create_radio upper srv site_id freq antennaId azimuth kw w =
     (case get_antennas srv freq w of
        (Inl e, w1) \<Rightarrow> (reraise ''Failed to create radio'' (Inl e), w1)
      | (Inr antennas, w1) \<Rightarrow>
          (case get_sites srv w1 of
             (Inl e, w2) \<Rightarrow> (reraise ''Failed to create radio'' (Inl e), w2)
           | (Inr sts, w2) \<Rightarrow>
               (case (case radioName kw of
                        None \<Rightarrow> default_name upper sts antennas site_id antennaId azimuth freq
                      | Some n \<Rightarrow> Inr n) of
                  Inl e \<Rightarrow> (reraise ''Failed to create radio'' (Inl e), w2)
                | Inr name \<Rightarrow>
                    (case request_json srv
                            (authorized w2 POST (''radio/'' @ site_id)
                               (JsonBody (radio_data antennaId name azimuth freq kw))) w2 of
                       (r, w3) \<Rightarrow> (reraise ''Failed to create radio'' r, w3)))))"

definition update_radio ::
  "server \<Rightarrow> string \<Rightarrow> pynum \<Rightarrow> string \<Rightarrow> pynum \<Rightarrow> radio_kwargs \<Rightarrow> world \<Rightarrow> json result" where
  "update_radio srv radio_id freq antennaId azimuth kw w =
     (case request_json srv
             (authorized w PATCH (''radio/'' @ radio_id)
                (JsonBody (radio_data antennaId (or_default (radioName kw) ''No Name'')
                             azimuth freq kw))) w of
        (r, w') \<Rightarrow> (reraise ''Failed to update radio'' r, w'))"

subsection \<open>Sites\<close>

definition rename_site :: "server \<Rightarrow> string \<Rightarrow> string \<Rightarrow> world \<Rightarrow> json result" where
  "rename_site srv site_id name w =
     (case request_json srv
             (authorized w PATCH (''site/'' @ site_id) (JsonBody (JObj [(''name'', JStr name)]))) w of
        (r, w') \<Rightarrow> (reraise ''Failed to update site'' r, w'))"

definition create_site ::
  "server \<Rightarrow> string \<Rightarrow> pynum \<Rightarrow> pynum \<Rightarrow> string \<Rightarrow> world \<Rightarrow> json result" where
  "create_site srv name lat lon credit_id w =
     (case request_json srv
             (authorized w POST ''sites''
                (JsonBody (JObj [(''name'', JStr name), (''lat'', JNum lat), (''lon'', JNum lon),
                                 (''credits'', JStr credit_id)]))) w of
        (r, w') \<Rightarrow> (reraise ''Failed to create site'' r, w'))"

subsection \<open>Predictions\<close>

definition get_predictions :: "server \<Rightarrow> world \<Rightarrow> json result" where
  "get_predictions srv w =
     (case request_json srv (authorized w GET ''predictions'' NoBody) w of
        (r, w') \<Rightarrow> (reraise ''Failed to fetch predicitions'' (objects r), w'))"

definition create_prediction :: "server \<Rightarrow> string \<Rightarrow> string list \<Rightarrow> world \<Rightarrow> json result" where
  "create_prediction srv prediction_name radio_id_list w =
     (case request_json srv
             (authorized w POST ''predictions''
                (JsonBody (JObj [(''name'', JStr prediction_name),
                                 (''radio_list'', JArr (map JStr radio_id_list))]))) w of
        (r, w') \<Rightarrow> (reraise ''Failed to create predicition'' r, w'))"

definition get_predictions_statuses :: "server \<Rightarrow> world \<Rightarrow> json result" where
  "get_predictions_statuses srv w =
     (case request_json srv (authorized w GET ''predictions/jobmanagement'' NoBody) w of
        (r, w') \<Rightarrow> (reraise ''Failed to fetch predicition statuses'' (objects r), w'))"

definition rename_prediction :: "server \<Rightarrow> string \<Rightarrow> string \<Rightarrow> world \<Rightarrow> json result" where
  "rename_prediction srv prediction_id new_name w =
     (case request_json srv
             (authorized w PATCH (''prediction/'' @ prediction_id @ ''/rename'')
                (JsonBody (JObj [(''name'', JStr new_name)]))) w of
        (r, w') \<Rightarrow> (reraise ''Failed to rename predicition'' r, w'))"

definition delete_prediction :: "server \<Rightarrow> string \<Rightarrow> world \<Rightarrow> json result" where
  "delete_prediction srv prediction_id w =
     (case request_json srv (authorized w DELETE (''prediction/'' @ prediction_id) NoBody) w of
        (r, w') \<Rightarrow> (reraise ''Failed to delete predicition'' r, w'))"

subsection \<open>Users\<close>

definition get_users :: "server \<Rightarrow> world \<Rightarrow> json result" where
  "get_users srv w =
     (case request_json srv (authorized w GET ''users'' NoBody) w of
        (r, w') \<Rightarrow> (reraise ''Failed to get users'' (objects r), w'))"

definition add_user :: "server \<Rightarrow> string \<Rightarrow> string \<Rightarrow> world \<Rightarrow> json result" where
  "add_user srv email role w =
     (case request_json srv
             (authorized w POST ''users''
                (JsonBody (JObj [(''email'', JStr email), (''permission'', JStr role)]))) w of
        (r, w') \<Rightarrow> (reraise ''Failed to add user'' r, w'))"

definition delete_user :: "server \<Rightarrow> string \<Rightarrow> world \<Rightarrow> json result" where
  "delete_user srv email w =
     (case request_json srv
             (authorized w DELETE ''user'' (JsonBody (JObj [(''email'', JStr email)]))) w of
        (r, w') \<Rightarrow> (reraise ''Failed to delete user'' r, w'))"

subsection \<open>Subscriptions\<close>

definition get_subscriptions :: "server \<Rightarrow> world \<Rightarrow> json result" where
  "get_subscriptions srv w =
     (case request_json srv (authorized w GET ''subscriptions'' NoBody) w of
        (r, w') \<Rightarrow> (reraise ''Failed to get subscriptions'' (objects r), w'))"

definition renew_subscriptions :: "server \<Rightarrow> string \<Rightarrow> world \<Rightarrow> json result" where
  "renew_subscriptions srv site_id w =
     (case request_json srv
             (authorized w PATCH (''subscription/'' @ site_id @ ''/renew'') NoBody) w of
        (r, w') \<Rightarrow> (reraise ''Failed to renew subscription'' r, w'))"

definition terminate_subscription :: "server \<Rightarrow> string \<Rightarrow> world \<Rightarrow> json result" where
  "terminate_subscription srv site_id w =
     (case request_json srv
             (authorized w PATCH (''subscription/'' @ site_id @ ''/terminate'') NoBody) w of
        (r, w') \<Rightarrow> (reraise ''Failed to renew subscription'' r, w'))"

subsection \<open>Construction\<close>

text \<open>
  \<^verbatim>\<open>__init__\<close> assigns the attributes one after the other. The object it starts from
  holds \<open>JNull\<close> and \<open>[]\<close> in the attributes not yet assigned; none of them is read
  before its assignment. The caller gets the object only when no step raises.
\<close>

definition init :: "server \<Rightarrow> string \<Rightarrow> string \<Rightarrow> request list \<Rightarrow> (exn + cnHeat) \<times> request list" where
  "init srv cid secret rqs =
     (let w0 = \<lparr>self = \<lparr>client_id = cid, client_secret = secret,
                         base_endpoint = api_v1,
                         token = JNull, headers = [], sites = JNull, predictions = JNull,
                         users = JNull\<rparr>,
                 sent = rqs\<rparr> in
      case authenticate srv w0 of
        (Inl e, w1) \<Rightarrow> (Inl e, sent w1)
      | (Inr t, w1) \<Rightarrow>
          (let w2 = w1\<lparr>self := (self w1)\<lparr>token := t\<rparr>\<rparr>;
               w3 = w2\<lparr>self := (self w2)\<lparr>headers :=
                       [(''Authorization'', ''Bearer '' @ py_str (token (self w2)))]\<rparr>\<rparr> in
           case get_sites srv w3 of
             (Inl e, w4) \<Rightarrow> (Inl e, sent w4)
           | (Inr s, w4) \<Rightarrow>
               (case get_predictions srv (w4\<lparr>self := (self w4)\<lparr>sites := s\<rparr>\<rparr>) of
                  (Inl e, w5) \<Rightarrow> (Inl e, sent w5)
                | (Inr p, w5) \<Rightarrow>
                    (case get_users srv (w5\<lparr>self := (self w5)\<lparr>predictions := p\<rparr>\<rparr>) of
                       (Inl e, w6) \<Rightarrow> (Inl e, sent w6)
                     | (Inr u, w6) \<Rightarrow> (Inr ((self w6)\<lparr>users := u\<rparr>), sent w6)))))"

subsection \<open>The public methods\<close>

datatype call =
    Get_credits
  | Get_antennas pynum
  | Get_site_radios string
  | Get_radio string
  | Delete_radio string
  | Create_radio string pynum string pynum radio_kwargs
  | Update_radio string pynum string pynum radio_kwargs
  | Get_sites
  | Rename_site string string
  | Create_site string pynum pynum string
  | Get_predictions
  | Create_prediction string "string list"
  | Get_predictions_statuses
  | Rename_prediction string string
  | Delete_prediction string
  | Get_users
  | Add_user string string
  | Delete_user string
  | Get_subscriptions
  | Renew_subscriptions string
  | Terminate_subscription string

fun invoke :: "(string \<Rightarrow> string) \<Rightarrow> server \<Rightarrow> call \<Rightarrow> world \<Rightarrow> json result" where
  "invoke upper srv Get_credits w = get_credits srv w"
| "invoke upper srv (Get_antennas freq) w = get_antennas srv freq w"
| "invoke upper srv (Get_site_radios site_id) w = get_site_radios srv site_id w"
| "invoke upper srv (Get_radio radio_id) w = get_radio srv radio_id w"
| "invoke upper srv (Delete_radio radio_id) w = delete_radio srv radio_id w"
| "invoke upper srv (Create_radio site_id freq antennaId azimuth kw) w =
     create_radio upper srv site_id freq antennaId azimuth kw w"
| "invoke upper srv (Update_radio radio_id freq antennaId azimuth kw) w =
     update_radio srv radio_id freq antennaId azimuth kw w"
| "invoke upper srv Get_sites w = get_sites srv w"
| "invoke upper srv (Rename_site site_id name) w = rename_site srv site_id name w"
| "invoke upper srv (Create_site name lat lon credit_id) w = create_site srv name lat lon credit_id w"
| "invoke upper srv Get_predictions w = get_predictions srv w"
| "invoke upper srv (Create_prediction name ids) w = create_prediction srv name ids w"
| "invoke upper srv Get_predictions_statuses w = get_predictions_statuses srv w"
| "invoke upper srv (Rename_prediction prediction_id new_name) w =
     rename_prediction srv prediction_id new_name w"
| "invoke upper srv (Delete_prediction prediction_id) w = delete_prediction srv prediction_id w"
| "invoke upper srv Get_users w = get_users srv w"
| "invoke upper srv (Add_user email role) w = add_user srv email role w"
| "invoke upper srv (Delete_user email) w = delete_user srv email w"
| "invoke upper srv Get_subscriptions w = get_subscriptions srv w"
| "invoke upper srv (Renew_subscriptions site_id) w = renew_subscriptions srv site_id w"
| "invoke upper srv (Terminate_subscription site_id) w = terminate_subscription srv site_id w"

section \<open>Notions the properties are stated with\<close>

definition decoded :: "outcome \<Rightarrow> exn + json" where
  \<comment> \<open>What the three lines of \<open>request_json\<close> make of an outcome.\<close>
  "decoded out =
     (case out of
        Raised m \<Rightarrow> Inl (RequestException m)
      | Returned r \<Rightarrow> (case raise_for_status r of Inl e \<Rightarrow> Inl e | Inr _ \<Rightarrow> response_json r))"

definition failed :: "outcome \<Rightarrow> bool" where
  \<comment> \<open>The call raised, or the status is 4xx or 5xx.\<close>
  "failed out =
     (case out of Raised m \<Rightarrow> True | Returned r \<Rightarrow> 400 \<le> status_code r \<and> status_code r < 600)"

definition success :: "outcome \<Rightarrow> json \<Rightarrow> bool" where
  \<comment> \<open>A 2xx response whose body decodes to \<open>v\<close>.\<close>
  "success out v =
     (case out of
        Raised m \<Rightarrow> False
      | Returned r \<Rightarrow> 200 \<le> status_code r \<and> status_code r < 300 \<and> content r = Inr v)"

definition listed :: "outcome \<Rightarrow> json \<Rightarrow> bool" where
  \<comment> \<open>A 2xx response whose body is a JSON object with \<open>l\<close> under \<^verbatim>\<open>objects\<close>.\<close>
  "listed out l =
     (case out of
        Raised m \<Rightarrow> False
      | Returned r \<Rightarrow>
          200 \<le> status_code r \<and> status_code r < 300
          \<and> (case content r of
                Inr (JObj kvs) \<Rightarrow> map_of kvs ''objects'' = Some l
              | _ \<Rightarrow> False))"

definition token_reply :: "outcome \<Rightarrow> json \<Rightarrow> bool" where
  \<comment> \<open>A 2xx response whose body is a JSON object with \<open>t\<close> under \<^verbatim>\<open>access_token\<close>.\<close>
  "token_reply out t =
     (case out of
        Raised m \<Rightarrow> False
      | Returned r \<Rightarrow>
          200 \<le> status_code r \<and> status_code r < 300
          \<and> (case content r of
                Inr (JObj kvs) \<Rightarrow> map_of kvs ''access_token'' = Some t
              | _ \<Rightarrow> False))"

definition token_request :: "string \<Rightarrow> string \<Rightarrow> request" where
  \<comment> \<open>The authentication request of a client under construction.\<close>
  "token_request cid secret =
     \<lparr>rq_verb = POST, rq_url = api_v1 @ ''oauth/token'', rq_headers = [], rq_params = [],
      rq_body = FormData [(''client_id'', cid), (''client_secret'', secret)]\<rparr>"

definition bearer :: "json \<Rightarrow> (string \<times> string) list" where
  "bearer t = [(''Authorization'', ''Bearer '' @ py_str t)]"

definition api_request :: "json \<Rightarrow> verb \<Rightarrow> string \<Rightarrow> payload \<Rightarrow> request" where
  \<comment> \<open>A request to the API that carries the bearer header of token \<open>t\<close>.\<close>
  "api_request t v path b =
     \<lparr>rq_verb = v, rq_url = api_v1 @ path, rq_headers = bearer t, rq_params = [], rq_body = b\<rparr>"

definition new_requests :: "world \<Rightarrow> world \<Rightarrow> request list" where
  \<comment> \<open>The requests issued between two states.\<close>
  "new_requests w w' = drop (length (sent w)) (sent w')"

definition json_or_none :: "payload \<Rightarrow> bool" where
  "json_or_none b = (case b of NoBody \<Rightarrow> True | FormData f \<Rightarrow> False | JsonBody j \<Rightarrow> True)"

definition list_call :: "call \<Rightarrow> bool" where
  \<comment> \<open>The methods that return a list.\<close>
  "list_call c =
     (case c of
        Get_antennas f \<Rightarrow> True | Get_site_radios s \<Rightarrow> True | Get_sites \<Rightarrow> True
      | Get_predictions \<Rightarrow> True | Get_predictions_statuses \<Rightarrow> True | Get_users \<Rightarrow> True
      | Get_subscriptions \<Rightarrow> True | _ \<Rightarrow> False)"

definition unauthenticated :: "string \<Rightarrow> string \<Rightarrow> request list \<Rightarrow> world" where
  \<comment> \<open>The object as \<^verbatim>\<open>__init__\<close> has it when it calls \<^verbatim>\<open>_authenticate\<close>.\<close>
  "unauthenticated cid secret rqs =
     \<lparr>self = \<lparr>client_id = cid, client_secret = secret, base_endpoint = api_v1,
               token = JNull, headers = [], sites = JNull, predictions = JNull, users = JNull\<rparr>,
      sent = rqs\<rparr>"

definition tokenless :: "outcome \<Rightarrow> bool" where
  \<comment> \<open>A 2xx response whose body is a JSON object without \<^verbatim>\<open>access_token\<close>.\<close>
  "tokenless out =
     (case out of
        Raised m \<Rightarrow> False
      | Returned r \<Rightarrow>
          200 \<le> status_code r \<and> status_code r < 300
          \<and> (case content r of
                Inr (JObj kvs) \<Rightarrow> map_of kvs ''access_token'' = None
              | _ \<Rightarrow> False))"

definition prefixes :: "call \<Rightarrow> string list" where
  \<comment> \<open>The message prefixes of the \<^verbatim>\<open>except\<close> clauses a call can end in: its own, and for
      \<^verbatim>\<open>create_radio\<close> those of the two fetches it calls. The prefix of
      \<^verbatim>\<open>get_site_radios\<close> is not static.\<close>
  "prefixes c =
     (case c of
        Get_credits \<Rightarrow> [''Failed to fetch credits'']
      | Get_antennas f \<Rightarrow> [''Failed to fetch antennas'']
      | Get_site_radios s \<Rightarrow> []
      | Get_radio r \<Rightarrow> [''Failed to fetch radio'']
      | Delete_radio r \<Rightarrow> [''Failed to delete radio'']
      | Create_radio s f a z kw \<Rightarrow>
          [''Failed to fetch antennas'', ''Failed to fetch sites'', ''Failed to create radio'']
      | Update_radio r f a z kw \<Rightarrow> [''Failed to update radio'']
      | Get_sites \<Rightarrow> [''Failed to fetch sites'']
      | Rename_site s n \<Rightarrow> [''Failed to update site'']
      | Create_site n la lo cr \<Rightarrow> [''Failed to create site'']
      | Get_predictions \<Rightarrow> [''Failed to fetch predicitions'']
      | Create_prediction n ids \<Rightarrow> [''Failed to create predicition'']
      | Get_predictions_statuses \<Rightarrow> [''Failed to fetch predicition statuses'']
      | Rename_prediction p n \<Rightarrow> [''Failed to rename predicition'']
      | Delete_prediction p \<Rightarrow> [''Failed to delete predicition'']
      | Get_users \<Rightarrow> [''Failed to get users'']
      | Add_user e r \<Rightarrow> [''Failed to add user'']
      | Delete_user e \<Rightarrow> [''Failed to delete user'']
      | Get_subscriptions \<Rightarrow> [''Failed to get subscriptions'']
      | Renew_subscriptions s \<Rightarrow> [''Failed to renew subscription'']
      | Terminate_subscription s \<Rightarrow> [''Failed to renew subscription''])"

definition radio_listing :: "call \<Rightarrow> bool" where
  "radio_listing c = (case c of Get_site_radios s \<Rightarrow> True | _ \<Rightarrow> False)"

definition absent :: "string \<Rightarrow> json list \<Rightarrow> bool" where
  \<comment> \<open>Every entry has an \<^verbatim>\<open>id\<close>, and none has the wanted one.\<close>
  "absent wanted xs =
     list_all (\<lambda>x. case py_getitem x ''id'' of Inl e \<Rightarrow> False | Inr i \<Rightarrow> i \<noteq> JStr wanted) xs"

section \<open>Example servers\<close>

text \<open>
  A server given by a table from paths under the API's base URL to response bodies: a
  path of the table is answered 200 with its body (decoded JSON, or the decoder's message
  for a body that is not JSON), any other path 404.
\<close>

definition table_server :: "(string \<times> (string + json)) list \<Rightarrow> server" where
  "table_server table rqs =
     (if rqs = [] then Raised ''nothing sent''
      else
        (case map_of table (drop (length api_v1) (rq_url (last rqs))) of
           None \<Rightarrow>
             Returned \<lparr>status_code = 404, reason = ''Not Found'', resp_url = rq_url (last rqs),
                       content = Inl ''Expecting value: line 1 column 1 (char 0)''\<rparr>
         | Some body \<Rightarrow>
             Returned \<lparr>status_code = 200, reason = ''OK'', resp_url = rq_url (last rqs),
                       content = body\<rparr>))"

definition upper_char :: "char \<Rightarrow> char" where
  "upper_char c =
     (case map_of (zip ''abcdefghijklmnopqrstuvwxyz'' ''ABCDEFGHIJKLMNOPQRSTUVWXYZ'') c of
        None \<Rightarrow> c | Some u \<Rightarrow> u)"

definition ascii_upper :: "string \<Rightarrow> string" where
  \<comment> \<open>What \<^verbatim>\<open>str.upper\<close> does to ASCII text: the \<open>upper\<close> of the examples, whose
      strings are all ASCII.\<close>
  "ascii_upper s = map upper_char s"

definition denver :: json where
  "denver = JObj [(''id'', JStr ''s1''), (''name'', JStr ''denver'')]"

definition hpa90 :: json where
  "hpa90 = JObj [(''id'', JStr ''a7''), (''antenna'', JStr ''HPA-90'')]"

definition demo_table :: "(string \<times> (string + json)) list" where
  "demo_table =
     [(''oauth/token'', Inr (JObj [(''access_token'', JStr ''t0k'')])),
      (''sites'', Inr (JObj [(''objects'', JArr [denver])])),
      (''predictions'', Inr (JObj [(''objects'', JArr [])])),
      (''users'', Inr (JObj [(''objects'', JArr [JObj [(''email'', JStr ''a@b.c'')]])])),
      (''antennas'', Inr (JObj [(''objects'', JArr [hpa90])])),
      (''radio/s1'', Inr (JObj [(''id'', JStr ''r1'')])),
      (''radio/r1'', Inr (JObj [(''id'', JStr ''r1'')])),
      (''subscriptions'', Inr (JObj [(''count'', JNum (PInt 0))]))]"

definition demo_server :: server where
  "demo_server = table_server demo_table"

definition demo_client :: cnHeat where
  \<comment> \<open>The client that construction against \<open>demo_server\<close> returns.\<close>
  "demo_client =
     \<lparr>client_id = ''id'', client_secret = ''secret'', base_endpoint = api_v1,
      token = JStr ''t0k'', headers = [(''Authorization'', ''Bearer t0k'')],
      sites = JArr [denver], predictions = JArr [],
      users = JArr [JObj [(''email'', JStr ''a@b.c'')]]\<rparr>"

definition demo_world :: world where
  "demo_world = \<lparr>self = demo_client, sent = []\<rparr>"

definition named_north :: radio_kwargs where
  \<comment> \<open>A call that names the radio.\<close>
  "named_north = required_only\<lparr>radioName := Some ''North''\<rparr>"

definition tokenless_server :: server where
  \<comment> \<open>Authentication answers 200 with a JSON object that has no \<^verbatim>\<open>access_token\<close>.\<close>
  "tokenless_server = table_server ((''oauth/token'', Inr (JObj [(''expires_in'', JNum (PInt 60))])) # demo_table)"

definition html_server :: server where
  \<comment> \<open>Authentication answers 200 with a body that is not JSON.\<close>
  "html_server = table_server [(''oauth/token'', Inl ''Expecting value: line 1 column 1 (char 0)'')]"

definition array_server :: server where
  \<comment> \<open>Every endpoint in the table answers 200 with a JSON array.\<close>
  "array_server = table_server [(''oauth/token'', Inr (JArr [])), (''sites'', Inr (JArr []))]"

definition null_name_server :: server where
  \<comment> \<open>The antenna of the list has \<^verbatim>\<open>null\<close> for its name.\<close>
  "null_name_server =
     table_server ((''antennas'',
                    Inr (JObj [(''objects'', JArr [JObj [(''id'', JStr ''a7''), (''antenna'', JNull)]])]))
                   # demo_table)"

definition ragged_server :: server where
  \<comment> \<open>The first site of the list has no \<^verbatim>\<open>id\<close>.\<close>
  "ragged_server =
     table_server ((''sites'',
                    Inr (JObj [(''objects'', JArr [JObj [(''name'', JStr ''depot'')], denver])]))
                   # demo_table)"

section \<open>How the methods run\<close>

text \<open>
  Every method issues its request, hands the outcome to \<open>decoded\<close> and extends
  \<open>sent\<close> by that one request.
\<close>

lemma request_json_eq:
  "request_json srv rq w = (decoded (srv (sent w @ [rq])), w\<lparr>sent := sent w @ [rq]\<rparr>)"
  by (simp add: request_json_def requests_call_def decoded_def Let_def split: outcome.splits sum.splits)

lemmas simple_defs = get_credits_def get_antennas_def get_site_radios_def get_radio_def delete_radio_def
  update_radio_def get_sites_def rename_site_def create_site_def get_predictions_def create_prediction_def
  get_predictions_statuses_def rename_prediction_def delete_prediction_def get_users_def add_user_def
  delete_user_def get_subscriptions_def renew_subscriptions_def terminate_subscription_def

lemma authorized_sent [simp]: "authorized (w\<lparr>sent := s\<rparr>) v p b = authorized w v p b"
  by (simp add: authorized_def)

lemma reraise_Inr [simp]: "reraise p (Inr v) = Inr v"
  by (simp add: reraise_def)

lemma reraise_eq_Inr [simp]: "(reraise p r = Inr v) = (r = Inr v)"
  by (auto simp: reraise_def split: sum.splits exn.splits)

lemma reraise_request [simp]:
  "reraise p (Inl (RequestException m)) = Inl (RuntimeError (p @ '': '' @ m))"
  by (simp add: reraise_def)

lemma objects_Inl [simp]: "objects (Inl e) = Inl e"
  by (simp add: objects_def)

lemma objects_Inr:
  "objects (Inr (JObj kvs)) = Inr (case map_of kvs ''objects'' of None \<Rightarrow> JArr [] | Some x \<Rightarrow> x)"
  by (simp add: objects_def py_get_def)

lemma decoded_failed:
  "failed out \<Longrightarrow> \<exists>m. decoded out = Inl (RequestException m)"
  by (auto simp: failed_def decoded_def raise_for_status_def split: outcome.splits)

lemma decoded_success:
  "success out v \<Longrightarrow> decoded out = Inr v"
  by (auto simp: success_def decoded_def raise_for_status_def response_json_def split: outcome.splits)

lemma listed_objects: "listed out l \<Longrightarrow> objects (decoded out) = Inr l"
  by (auto simp: listed_def decoded_def raise_for_status_def response_json_def objects_def py_get_def
      split: outcome.splits sum.splits json.splits)

lemma token_reply_decoded:
  "token_reply out t \<Longrightarrow> (case decoded out of Inl e \<Rightarrow> Inl e | Inr v \<Rightarrow> py_get v ''access_token'' JNull) = Inr t"
  by (auto simp: token_reply_def decoded_def raise_for_status_def response_json_def py_get_def
      split: outcome.splits sum.splits json.splits)

lemma authenticate_eq:
  "authenticate srv w =
     (reraise ''Authentication failed''
        (case decoded (srv (sent w @ [\<lparr>rq_verb = POST, rq_url = base_endpoint (self w) @ ''oauth/token'',
              rq_headers = [], rq_params = [],
              rq_body = FormData [(''client_id'', client_id (self w)),
                                  (''client_secret'', client_secret (self w))]\<rparr>])) of
           Inl e \<Rightarrow> Inl e | Inr v \<Rightarrow> py_get v ''access_token'' JNull),
      w\<lparr>sent := sent w @ [\<lparr>rq_verb = POST, rq_url = base_endpoint (self w) @ ''oauth/token'',
              rq_headers = [], rq_params = [],
              rq_body = FormData [(''client_id'', client_id (self w)),
                                  (''client_secret'', client_secret (self w))]\<rparr>]\<rparr>)"
  by (simp add: authenticate_def request_json_eq)

lemma get_predictions_eq:
  "get_predictions srv w =
    (reraise ''Failed to fetch predicitions'' (objects (decoded (srv (sent w @ [authorized w GET ''predictions'' NoBody])))),
     w\<lparr>sent := sent w @ [authorized w GET ''predictions'' NoBody]\<rparr>)"
  by (simp add: get_predictions_def request_json_eq)

lemma get_users_eq:
  "get_users srv w =
    (reraise ''Failed to get users'' (objects (decoded (srv (sent w @ [authorized w GET ''users'' NoBody])))),
     w\<lparr>sent := sent w @ [authorized w GET ''users'' NoBody]\<rparr>)"
  by (simp add: get_users_def request_json_eq)

lemma get_antennas_eq:
  "get_antennas srv f w =
    (reraise ''Failed to fetch antennas''
       (objects (decoded (srv (sent w @ [(authorized w GET ''antennas'' NoBody)\<lparr>rq_params := [(''frequency'', JNum f)]\<rparr>])))),
     w\<lparr>sent := sent w @ [(authorized w GET ''antennas'' NoBody)\<lparr>rq_params := [(''frequency'', JNum f)]\<rparr>]\<rparr>)"
  by (simp add: get_antennas_def request_json_eq)

lemma get_sites_eq:
  "get_sites srv w =
    (reraise ''Failed to fetch sites'' (objects (decoded (srv (sent w @ [authorized w GET ''sites'' NoBody])))),
     w\<lparr>sent := sent w @ [authorized w GET ''sites'' NoBody]\<rparr>)"
  by (simp add: get_sites_def request_json_eq)

lemma url_path [simp]:
  "drop (length api_v1) (rq_url (token_request cid secret)) = ''oauth/token''"
  "drop (length api_v1) (rq_url (api_request t v path b)) = path"
  by (simp_all add: token_request_def api_request_def)

section \<open>Construction\<close>

lemma init_auth_failed:
  assumes "failed (srv (rqs @ [token_request cid secret]))"
  shows "\<exists>m. init srv cid secret rqs
           = (Inl (RuntimeError (''Authentication failed: '' @ m)), rqs @ [token_request cid secret])"
proof -
  from decoded_failed [OF assms] obtain m
    where "decoded (srv (rqs @ [token_request cid secret])) = Inl (RequestException m)" ..
  then show ?thesis
    by (simp add: init_def authenticate_eq token_request_def)
qed

lemma init_after_auth:
  assumes "token_reply (srv (rqs @ [token_request cid secret])) t"
  shows "init srv cid secret rqs =
     (let w3 = \<lparr>self = \<lparr>client_id = cid, client_secret = secret, base_endpoint = api_v1,
                         token = t, headers = bearer t, sites = JNull, predictions = JNull,
                         users = JNull\<rparr>,
                 sent = rqs @ [token_request cid secret]\<rparr> in
      case get_sites srv w3 of
             (Inl e, w4) \<Rightarrow> (Inl e, sent w4)
           | (Inr s, w4) \<Rightarrow>
               (case get_predictions srv (w4\<lparr>self := (self w4)\<lparr>sites := s\<rparr>\<rparr>) of
                  (Inl e, w5) \<Rightarrow> (Inl e, sent w5)
                | (Inr p, w5) \<Rightarrow>
                    (case get_users srv (w5\<lparr>self := (self w5)\<lparr>predictions := p\<rparr>\<rparr>) of
                       (Inl e, w6) \<Rightarrow> (Inl e, sent w6)
                     | (Inr u, w6) \<Rightarrow> (Inr ((self w6)\<lparr>users := u\<rparr>), sent w6))))"
  using token_reply_decoded [OF assms]
  by (simp add: init_def authenticate_eq token_request_def bearer_def Let_def)

text \<open>
  Claim C5. Construction sends the authentication request first. When that call raises
  or is answered 4xx or 5xx, construction ends in the authentication error and nothing
  else is sent. Otherwise it fetches the sites, the predictions and the users, in this
  order and whatever the caller wants the client for; a fetch that fails ends
  construction in that fetch's error, with no later request. When all three are answered
  2xx with a list under \<^verbatim>\<open>objects\<close>, construction has sent exactly the four requests
  and the client holds exactly those three lists.
\<close>

theorem construction_protocol:
  fixes srv :: server
  defines "a \<equiv> \<lambda>rqs cid secret. rqs @ [token_request cid secret]"
  defines "b \<equiv> \<lambda>rqs cid secret t. rqs @ [token_request cid secret, api_request t GET ''sites'' NoBody]"
  defines "c \<equiv> \<lambda>rqs cid secret t. rqs @ [token_request cid secret, api_request t GET ''sites'' NoBody,
                 api_request t GET ''predictions'' NoBody]"
  defines "d \<equiv> \<lambda>rqs cid secret t. rqs @ [token_request cid secret, api_request t GET ''sites'' NoBody,
                 api_request t GET ''predictions'' NoBody, api_request t GET ''users'' NoBody]"
  shows
   "(failed (srv (a rqs cid secret)) \<longrightarrow>
       (\<exists>m. init srv cid secret rqs = (Inl (RuntimeError (''Authentication failed: '' @ m)), a rqs cid secret)))
    \<and> (token_reply (srv (a rqs cid secret)) t \<longrightarrow>
         (failed (srv (b rqs cid secret t)) \<longrightarrow>
            (\<exists>m. init srv cid secret rqs = (Inl (RuntimeError (''Failed to fetch sites: '' @ m)), b rqs cid secret t)))
         \<and> (listed (srv (b rqs cid secret t)) S \<longrightarrow>
              (failed (srv (c rqs cid secret t)) \<longrightarrow>
                 (\<exists>m. init srv cid secret rqs = (Inl (RuntimeError (''Failed to fetch predicitions: '' @ m)), c rqs cid secret t)))
              \<and> (listed (srv (c rqs cid secret t)) P \<longrightarrow>
                   (failed (srv (d rqs cid secret t)) \<longrightarrow>
                      (\<exists>m. init srv cid secret rqs = (Inl (RuntimeError (''Failed to get users: '' @ m)), d rqs cid secret t)))
                   \<and> (listed (srv (d rqs cid secret t)) U \<longrightarrow>
                        init srv cid secret rqs =
                          (Inr \<lparr>client_id = cid, client_secret = secret, base_endpoint = api_v1,
                                token = t, headers = bearer t, sites = S, predictions = P, users = U\<rparr>,
                           d rqs cid secret t)))))"
  unfolding a_def b_def c_def d_def
  apply (intro conjI impI)
  subgoal by (rule init_auth_failed)
  subgoal by (drule decoded_failed) (auto simp: init_after_auth get_sites_eq Let_def authorized_def api_request_def)
  subgoal by (drule decoded_failed, drule listed_objects) (auto simp: init_after_auth get_sites_eq get_predictions_eq Let_def authorized_def api_request_def)
  subgoal by (drule decoded_failed, drule listed_objects, drule listed_objects) (auto simp: init_after_auth get_sites_eq get_predictions_eq get_users_eq Let_def authorized_def api_request_def)
  subgoal by (drule listed_objects, drule listed_objects, drule listed_objects) (auto simp: init_after_auth get_sites_eq get_predictions_eq get_users_eq Let_def authorized_def api_request_def)
  done


theorem construction_protocol_witness:
  "(\<exists>m. init (table_server []) ''id'' ''secret'' [] =
      (Inl (RuntimeError (''Authentication failed: '' @ m)), [token_request ''id'' ''secret'']))
   \<and> (\<exists>m. init (table_server [(''oauth/token'', Inr (JObj [(''access_token'', JStr ''t0k'')]))]) ''id'' ''secret'' [] =
      (Inl (RuntimeError (''Failed to fetch sites: '' @ m)),
       [token_request ''id'' ''secret'', api_request (JStr ''t0k'') GET ''sites'' NoBody]))
   \<and> init demo_server ''id'' ''secret'' [] =
      (Inr demo_client,
       [token_request ''id'' ''secret'', api_request (JStr ''t0k'') GET ''sites'' NoBody,
        api_request (JStr ''t0k'') GET ''predictions'' NoBody,
        api_request (JStr ''t0k'') GET ''users'' NoBody])"
proof (intro conjI)
  show "\<exists>m. init (table_server []) ''id'' ''secret'' [] =
      (Inl (RuntimeError (''Authentication failed: '' @ m)), [token_request ''id'' ''secret''])"
    using construction_protocol [of "table_server []" "[]" "''id''" "''secret''" JNull JNull JNull JNull]
    by (simp add: table_server_def failed_def)
  show "\<exists>m. init (table_server [(''oauth/token'', Inr (JObj [(''access_token'', JStr ''t0k'')]))]) ''id'' ''secret'' [] =
      (Inl (RuntimeError (''Failed to fetch sites: '' @ m)),
       [token_request ''id'' ''secret'', api_request (JStr ''t0k'') GET ''sites'' NoBody])"
    using construction_protocol [of "table_server [(''oauth/token'', Inr (JObj [(''access_token'', JStr ''t0k'')]))]"
        "[]" "''id''" "''secret''" "JStr ''t0k''" JNull JNull JNull]
    by (simp add: table_server_def failed_def token_reply_def)
  show "init demo_server ''id'' ''secret'' [] =
      (Inr demo_client,
       [token_request ''id'' ''secret'', api_request (JStr ''t0k'') GET ''sites'' NoBody,
        api_request (JStr ''t0k'') GET ''predictions'' NoBody,
        api_request (JStr ''t0k'') GET ''users'' NoBody])"
    using construction_protocol [of demo_server "[]" "''id''" "''secret''" "JStr ''t0k''" "JArr [denver]" "JArr []"
        "JArr [JObj [(''email'', JStr ''a@b.c'')]]"]
    by (simp add: demo_server_def table_server_def demo_table_def
        token_reply_def listed_def demo_client_def bearer_def py_str_def)
qed

section \<open>The snapshots\<close>

lemma create_radio_self: "self (snd (create_radio upper srv s f a z kw w)) = self w"
  by (simp add: create_radio_def get_antennas_eq get_sites_eq request_json_eq split: prod.splits sum.splits option.splits)

lemma invoke_self: "self (snd (invoke upper srv c w)) = self w"
  by (cases c) (simp_all add: simple_defs request_json_eq create_radio_self)

text \<open>
  Claim C6. No public method, whether it returns or raises, changes the client's
  \<^verbatim>\<open>sites\<close>, \<^verbatim>\<open>predictions\<close> or \<^verbatim>\<open>users\<close>: after construction they are
  never written again.
\<close>

theorem snapshots_never_rewritten:
  "sites (self (snd (invoke upper srv c w))) = sites (self w)
   \<and> predictions (self (snd (invoke upper srv c w))) = predictions (self w)
   \<and> users (self (snd (invoke upper srv c w))) = users (self w)"
  by (simp add: invoke_self)

section \<open>The requests of create_radio\<close>

lemma create_radio_cases:
  fixes srv :: server
  defines "ga \<equiv> \<lambda>w freq. (authorized w GET ''antennas'' NoBody)\<lparr>rq_params := [(''frequency'', JNum freq)]\<rparr>"
  shows
   "(\<exists>e. create_radio upper srv site_id freq antennaId azimuth kw w = (Inl e, w\<lparr>sent := sent w @ [ga w freq]\<rparr>))
    \<or> (\<exists>e. create_radio upper srv site_id freq antennaId azimuth kw w =
              (Inl e, w\<lparr>sent := sent w @ [ga w freq, authorized w GET ''sites'' NoBody]\<rparr>))
    \<or> (\<exists>r name. create_radio upper srv site_id freq antennaId azimuth kw w =
              (r, w\<lparr>sent := sent w @ [ga w freq, authorized w GET ''sites'' NoBody,
                   authorized w POST (''radio/'' @ site_id)
                     (JsonBody (radio_data antennaId name azimuth freq kw))]\<rparr>)
           \<and> (\<forall>n. radioName kw = Some n \<longrightarrow> name = n))"
  unfolding ga_def
  by (auto simp add: create_radio_def get_antennas_eq get_sites_eq request_json_eq authorized_def reraise_def
        split: prod.splits sum.splits option.splits exn.splits)

lemma create_radio_post:
  assumes "get_antennas srv freq w = (Inr ants, w1)" "get_sites srv w1 = (Inr sts, w2)"
      and "(case radioName kw of None \<Rightarrow> default_name upper sts ants site_id antennaId azimuth freq | Some n \<Rightarrow> Inr n) = Inr name"
  shows "create_radio upper srv site_id freq antennaId azimuth kw w =
           (reraise ''Failed to create radio''
              (decoded (srv (sent w2 @ [authorized w POST (''radio/'' @ site_id)
                     (JsonBody (radio_data antennaId name azimuth freq kw))]))),
            w2\<lparr>sent := sent w2 @ [authorized w POST (''radio/'' @ site_id)
                     (JsonBody (radio_data antennaId name azimuth freq kw))]\<rparr>)"
proof -
  have "self w1 = self w" using assms(1) by (auto simp: get_antennas_eq)
  moreover have "self w2 = self w1" using assms(2) by (auto simp: get_sites_eq)
  ultimately have "authorized w2 v p b = authorized w v p b" for v p b
    by (simp add: authorized_def)
  with assms show ?thesis
    by (simp add: create_radio_def request_json_eq)
qed



lemma demo_antennas:
  "get_antennas demo_server (PFloat ''5.8'') demo_world =
     (Inr (JArr [hpa90]),
      demo_world\<lparr>sent := [(authorized demo_world GET ''antennas'' NoBody)\<lparr>rq_params := [(''frequency'', JNum (PFloat ''5.8''))]\<rparr>]\<rparr>)"
  by (simp add: get_antennas_eq demo_world_def demo_client_def authorized_def demo_server_def
      table_server_def demo_table_def decoded_def raise_for_status_def response_json_def
      objects_def py_get_def)

lemma demo_sites:
  "self w = demo_client \<Longrightarrow> get_sites demo_server w =
     (Inr (JArr [denver]), w\<lparr>sent := sent w @ [authorized w GET ''sites'' NoBody]\<rparr>)"
  by (simp add: get_sites_eq demo_client_def authorized_def demo_server_def
      table_server_def demo_table_def decoded_def raise_for_status_def response_json_def
      objects_def py_get_def)

lemma demo_fetched:
  "get_sites demo_server
     (demo_world\<lparr>sent := [(authorized demo_world GET ''antennas'' NoBody)\<lparr>rq_params := [(''frequency'', JNum (PFloat ''5.8''))]\<rparr>]\<rparr>) =
   (Inr (JArr [denver]),
    demo_world\<lparr>sent := [(authorized demo_world GET ''antennas'' NoBody)\<lparr>rq_params := [(''frequency'', JNum (PFloat ''5.8''))]\<rparr>,
                         authorized demo_world GET ''sites'' NoBody]\<rparr>)"
  by (simp add: demo_sites demo_world_def authorized_def)

text \<open>
  Claim C9. A call of \<^verbatim>\<open>create_radio\<close> issues the GET of the antennas first, then the
  GET of the sites, then the POST, each only if what came before it did not raise: the
  requests it adds are the first one, the first two or all three, never the POST without
  both fetches. A call that returns has issued exactly the three, in this order, and this
  whether or not a name was given; with a name given, the POST carries that name and the
  two fetched lists are not consulted.
\<close>

theorem create_radio_three_requests:
  fixes srv :: server
  defines "ga \<equiv> \<lambda>w freq.
             \<lparr>rq_verb = GET, rq_url = base_endpoint (self w) @ ''antennas'',
              rq_headers = headers (self w), rq_params = [(''frequency'', JNum freq)],
              rq_body = NoBody\<rparr>"
      and "gs \<equiv> \<lambda>w.
             \<lparr>rq_verb = GET, rq_url = base_endpoint (self w) @ ''sites'',
              rq_headers = headers (self w), rq_params = [], rq_body = NoBody\<rparr>"
      and "post \<equiv> \<lambda>w site_id body.
             \<lparr>rq_verb = POST, rq_url = base_endpoint (self w) @ ''radio/'' @ site_id,
              rq_headers = headers (self w), rq_params = [], rq_body = JsonBody (JObj body)\<rparr>"
  shows
   "(case create_radio upper srv site_id freq antennaId azimuth kw w of
       (r, w') \<Rightarrow>
         (sent w' = sent w @ [ga w freq]
          \<or> sent w' = sent w @ [ga w freq, gs w]
          \<or> (\<exists>body. sent w' = sent w @ [ga w freq, gs w, post w site_id body]))
         \<and> (\<forall>v. r = Inr v \<longrightarrow>
               (\<exists>body. sent w' = sent w @ [ga w freq, gs w, post w site_id body]
                  \<and> (\<forall>n. radioName kw = Some n \<longrightarrow> map_of body ''name'' = Some (JStr n)))))"
  using create_radio_cases [where upper = upper and srv = srv and site_id = site_id and freq = freq
      and antennaId = antennaId and azimuth = azimuth and kw = kw and w = w]
  unfolding ga_def gs_def post_def
  by (elim disjE exE conjE) (auto simp: authorized_def radio_data_def)

lemma demo_create_named:
  "create_radio ascii_upper demo_server ''s1'' (PFloat ''5.8'') ''a7'' (PInt 120) named_north demo_world =
     (Inr (JObj [(''id'', JStr ''r1'')]),
      demo_world\<lparr>sent :=
        [(authorized demo_world GET ''antennas'' NoBody)\<lparr>rq_params := [(''frequency'', JNum (PFloat ''5.8''))]\<rparr>,
         authorized demo_world GET ''sites'' NoBody,
         authorized demo_world POST ''radio/s1''
           (JsonBody (radio_data ''a7'' ''North'' (PInt 120) (PFloat ''5.8'') named_north))]\<rparr>)"
proof -
  have n: "(case radioName named_north of
              None \<Rightarrow> default_name ascii_upper (JArr [denver]) (JArr [hpa90]) ''s1'' ''a7'' (PInt 120) (PFloat ''5.8'')
            | Some n \<Rightarrow> Inr n) = Inr ''North''"
    by (simp add: named_north_def)
  show ?thesis
    unfolding create_radio_post [OF demo_antennas demo_fetched n]
    by (simp add: demo_world_def demo_client_def authorized_def demo_server_def table_server_def
        demo_table_def decoded_def raise_for_status_def response_json_def)
qed

theorem create_radio_three_requests_witness:
  "\<exists>body. create_radio ascii_upper demo_server ''s1'' (PFloat ''5.8'') ''a7'' (PInt 120) named_north demo_world =
     (Inr (JObj [(''id'', JStr ''r1'')]),
      \<lparr>self = demo_client,
       sent = [\<lparr>rq_verb = GET, rq_url = api_v1 @ ''antennas'',
                rq_headers = [(''Authorization'', ''Bearer t0k'')],
                rq_params = [(''frequency'', JNum (PFloat ''5.8''))], rq_body = NoBody\<rparr>,
               \<lparr>rq_verb = GET, rq_url = api_v1 @ ''sites'',
                rq_headers = [(''Authorization'', ''Bearer t0k'')], rq_params = [],
                rq_body = NoBody\<rparr>,
               \<lparr>rq_verb = POST, rq_url = api_v1 @ ''radio/s1'',
                rq_headers = [(''Authorization'', ''Bearer t0k'')], rq_params = [],
                rq_body = JsonBody (JObj body)\<rparr>]\<rparr>)
     \<and> map_of body ''name'' = Some (JStr ''North'')"
proof -
  have r: "fst (create_radio ascii_upper demo_server ''s1'' (PFloat ''5.8'') ''a7'' (PInt 120) named_north demo_world)
     = Inr (JObj [(''id'', JStr ''r1'')])"
    by (simp add: demo_create_named)
  have s: "self (snd (create_radio ascii_upper demo_server ''s1'' (PFloat ''5.8'') ''a7'' (PInt 120) named_north demo_world))
     = demo_client"
    by (simp add: create_radio_self demo_world_def)
  have k: "radioName named_north = Some ''North''"
    by (simp add: named_north_def)
  from create_radio_three_requests
         [where upper = ascii_upper and srv = demo_server and site_id = "''s1''" and freq = "PFloat ''5.8''"
            and antennaId = "''a7''" and azimuth = "PInt 120" and kw = named_north and w = demo_world] r k
  obtain body where
    "sent (snd (create_radio ascii_upper demo_server ''s1'' (PFloat ''5.8'') ''a7'' (PInt 120) named_north demo_world)) =
       [\<lparr>rq_verb = GET, rq_url = api_v1 @ ''antennas'',
                rq_headers = [(''Authorization'', ''Bearer t0k'')],
                rq_params = [(''frequency'', JNum (PFloat ''5.8''))], rq_body = NoBody\<rparr>,
               \<lparr>rq_verb = GET, rq_url = api_v1 @ ''sites'',
                rq_headers = [(''Authorization'', ''Bearer t0k'')], rq_params = [],
                rq_body = NoBody\<rparr>,
               \<lparr>rq_verb = POST, rq_url = api_v1 @ ''radio/s1'',
                rq_headers = [(''Authorization'', ''Bearer t0k'')], rq_params = [],
                rq_body = JsonBody (JObj body)\<rparr>]"
    and "map_of body ''name'' = Some (JStr ''North'')"
    by (auto simp: case_prod_unfold demo_world_def demo_client_def)
  with r s show ?thesis
    by (intro exI [of _ body]) (simp add: prod_eq_iff world.equality)
qed

section \<open>The request body of a radio\<close>

lemma update_radio_eq:
  "update_radio srv radio_id freq antennaId azimuth kw w =
     (reraise ''Failed to update radio''
        (decoded (srv (sent w @ [authorized w PATCH (''radio/'' @ radio_id)
            (JsonBody (radio_data antennaId (or_default (radioName kw) ''No Name'') azimuth freq kw))]))),
      w\<lparr>sent := sent w @ [authorized w PATCH (''radio/'' @ radio_id)
            (JsonBody (radio_data antennaId (or_default (radioName kw) ''No Name'') azimuth freq kw))]\<rparr>)"
  by (simp add: update_radio_def request_json_eq)

lemma radio_data_required_only:
  "radio_data antennaId name azimuth freq required_only =
     JObj [(''antenna'', JStr antennaId),
           (''name'', JStr name),
           (''azimuth'', JNum azimuth),
           (''foliage_tuning'', JNum (PInt (- 1))),
           (''frequency(ghz)'', JNum freq),
           (''height(m)'', JNum (PInt 20)),
           (''height_rooftop(m)'', JNum (PInt 0)),
           (''radius(m)'', JNum (PInt 12875)),
           (''sm_gain(dbi)'', JNum (PFloat ''18.5'')),
           (''tilt'', JNum (PInt (- 2))),
           (''txclearance(m)'', JNum (PInt 30)),
           (''txpower(dbm)'', JNum (PFloat ''27.2''))]"
  by (simp add: radio_data_def required_only_def or_default_def)

text \<open>
  Claim C4. Called with the required arguments only, \<^verbatim>\<open>create_radio\<close> (once its two
  fetches have returned and the default name is built) sends a POST, and
  \<^verbatim>\<open>update_radio\<close> a PATCH, whose body is a JSON object of exactly twelve fields:
  \<^verbatim>\<open>antenna\<close>, \<^verbatim>\<open>name\<close>, \<^verbatim>\<open>azimuth\<close> and \<^verbatim>\<open>frequency(ghz)\<close> from the call (the
  name being the default name, or \<^verbatim>\<open>No Name\<close> for an update), and the defaults
  \<^verbatim>\<open>foliage_tuning\<close> -1, \<^verbatim>\<open>height(m)\<close> 20, \<^verbatim>\<open>height_rooftop(m)\<close> 0,
  \<^verbatim>\<open>radius(m)\<close> 12875, \<^verbatim>\<open>sm_gain(dbi)\<close> 18.5, \<^verbatim>\<open>tilt\<close> -2,
  \<^verbatim>\<open>txclearance(m)\<close> 30 and \<^verbatim>\<open>txpower(dbm)\<close> 27.2.
\<close>

theorem radio_body_defaults:
  "(get_antennas srv freq w = (Inr ants, w1) \<longrightarrow> get_sites srv w1 = (Inr sts, w2) \<longrightarrow>
      default_name upper sts ants site_id antennaId azimuth freq = Inr name \<longrightarrow>
      sent (snd (create_radio upper srv site_id freq antennaId azimuth required_only w)) =
        sent w2 @
        [\<lparr>rq_verb = POST, rq_url = base_endpoint (self w) @ ''radio/'' @ site_id,
           rq_headers = headers (self w), rq_params = [],
           rq_body = JsonBody (JObj [(''antenna'', JStr antennaId),
                            (''name'', JStr name),
                            (''azimuth'', JNum azimuth),
                            (''foliage_tuning'', JNum (PInt (- 1))),
                            (''frequency(ghz)'', JNum freq),
                            (''height(m)'', JNum (PInt 20)),
                            (''height_rooftop(m)'', JNum (PInt 0)),
                            (''radius(m)'', JNum (PInt 12875)),
                            (''sm_gain(dbi)'', JNum (PFloat ''18.5'')),
                            (''tilt'', JNum (PInt (- 2))),
                            (''txclearance(m)'', JNum (PInt 30)),
                            (''txpower(dbm)'', JNum (PFloat ''27.2''))])\<rparr>])
   \<and> sent (snd (update_radio srv radio_id freq antennaId azimuth required_only w)) =
        sent w @
        [\<lparr>rq_verb = PATCH, rq_url = base_endpoint (self w) @ ''radio/'' @ radio_id,
           rq_headers = headers (self w), rq_params = [],
           rq_body = JsonBody (JObj [(''antenna'', JStr antennaId),
                            (''name'', JStr ''No Name''),
                            (''azimuth'', JNum azimuth),
                            (''foliage_tuning'', JNum (PInt (- 1))),
                            (''frequency(ghz)'', JNum freq),
                            (''height(m)'', JNum (PInt 20)),
                            (''height_rooftop(m)'', JNum (PInt 0)),
                            (''radius(m)'', JNum (PInt 12875)),
                            (''sm_gain(dbi)'', JNum (PFloat ''18.5'')),
                            (''tilt'', JNum (PInt (- 2))),
                            (''txclearance(m)'', JNum (PInt 30)),
                            (''txpower(dbm)'', JNum (PFloat ''27.2''))])\<rparr>]"
proof (intro conjI impI)
  assume a: "get_antennas srv freq w = (Inr ants, w1)" and s: "get_sites srv w1 = (Inr sts, w2)"
    and n: "default_name upper sts ants site_id antennaId azimuth freq = Inr name"
  have "(case radioName required_only of
           None \<Rightarrow> default_name upper sts ants site_id antennaId azimuth freq | Some n \<Rightarrow> Inr n) = Inr name"
    using n by (simp add: required_only_def)
  from create_radio_post [OF a s this]
  show "sent (snd (create_radio upper srv site_id freq antennaId azimuth required_only w)) =
        sent w2 @
        [\<lparr>rq_verb = POST, rq_url = base_endpoint (self w) @ ''radio/'' @ site_id,
           rq_headers = headers (self w), rq_params = [],
           rq_body = JsonBody (JObj [(''antenna'', JStr antennaId),
                            (''name'', JStr name),
                            (''azimuth'', JNum azimuth),
                            (''foliage_tuning'', JNum (PInt (- 1))),
                            (''frequency(ghz)'', JNum freq),
                            (''height(m)'', JNum (PInt 20)),
                            (''height_rooftop(m)'', JNum (PInt 0)),
                            (''radius(m)'', JNum (PInt 12875)),
                            (''sm_gain(dbi)'', JNum (PFloat ''18.5'')),
                            (''tilt'', JNum (PInt (- 2))),
                            (''txclearance(m)'', JNum (PInt 30)),
                            (''txpower(dbm)'', JNum (PFloat ''27.2''))])\<rparr>]"
    by (simp add: radio_data_required_only authorized_def)
next
  show "sent (snd (update_radio srv radio_id freq antennaId azimuth required_only w)) =
        sent w @
        [\<lparr>rq_verb = PATCH, rq_url = base_endpoint (self w) @ ''radio/'' @ radio_id,
           rq_headers = headers (self w), rq_params = [],
           rq_body = JsonBody (JObj [(''antenna'', JStr antennaId),
                            (''name'', JStr ''No Name''),
                            (''azimuth'', JNum azimuth),
                            (''foliage_tuning'', JNum (PInt (- 1))),
                            (''frequency(ghz)'', JNum freq),
                            (''height(m)'', JNum (PInt 20)),
                            (''height_rooftop(m)'', JNum (PInt 0)),
                            (''radius(m)'', JNum (PInt 12875)),
                            (''sm_gain(dbi)'', JNum (PFloat ''18.5'')),
                            (''tilt'', JNum (PInt (- 2))),
                            (''txclearance(m)'', JNum (PInt 30)),
                            (''txpower(dbm)'', JNum (PFloat ''27.2''))])\<rparr>]"
    by (simp add: update_radio_eq radio_data_required_only authorized_def)
       (simp add: or_default_def required_only_def)
qed

lemma demo_default_name:
  "default_name ascii_upper (JArr [denver]) (JArr [hpa90]) ''s1'' ''a7'' (PInt 120) (PFloat ''5.8'')
     = Inr ''AP-HPA-120-5 GHZ.DENVER''"
  by (simp add: default_name_def py_iter_def denver_def hpa90_def py_getitem_def format_name_def
      local_var_def split0_def upper_of_def str_num_def str_int_def str_nat.simps digit_char_def
      ascii_upper_def upper_char_def)

theorem radio_body_defaults_witness:
  "sent (snd (create_radio ascii_upper demo_server ''s1'' (PFloat ''5.8'') ''a7'' (PInt 120) required_only demo_world)) =
     [\<lparr>rq_verb = GET, rq_url = api_v1 @ ''antennas'',
           rq_headers = [(''Authorization'', ''Bearer t0k'')],
           rq_params = [(''frequency'', JNum (PFloat ''5.8''))], rq_body = NoBody\<rparr>,
      \<lparr>rq_verb = GET, rq_url = api_v1 @ ''sites'',
           rq_headers = [(''Authorization'', ''Bearer t0k'')], rq_params = [],
           rq_body = NoBody\<rparr>,
      \<lparr>rq_verb = POST, rq_url = api_v1 @ ''radio/s1'',
       rq_headers = [(''Authorization'', ''Bearer t0k'')], rq_params = [],
       rq_body =
         JsonBody (JObj [(''antenna'', JStr ''a7''),
                         (''name'', JStr ''AP-HPA-120-5 GHZ.DENVER''),
                         (''azimuth'', JNum (PInt 120)),
                         (''foliage_tuning'', JNum (PInt (- 1))),
                         (''frequency(ghz)'', JNum (PFloat ''5.8'')),
                         (''height(m)'', JNum (PInt 20)),
                         (''height_rooftop(m)'', JNum (PInt 0)),
                         (''radius(m)'', JNum (PInt 12875)),
                         (''sm_gain(dbi)'', JNum (PFloat ''18.5'')),
                         (''tilt'', JNum (PInt (- 2))),
                         (''txclearance(m)'', JNum (PInt 30)),
                         (''txpower(dbm)'', JNum (PFloat ''27.2''))])\<rparr>]"
  using radio_body_defaults
          [where upper = ascii_upper and srv = demo_server and freq = "PFloat ''5.8''" and w = demo_world
             and site_id = "''s1''" and antennaId = "''a7''" and azimuth = "PInt 120"
             and name = "''AP-HPA-120-5 GHZ.DENVER''"]
        demo_antennas demo_fetched demo_default_name
  by (simp add: demo_world_def demo_client_def authorized_def)

section \<open>The default name of a radio\<close>


lemma lookup_first:
  "absent wanted pre \<Longrightarrow> py_getitem x ''id'' = Inr (JStr wanted) \<Longrightarrow>
   lookup_loop (pre @ x # post) wanted f =
     (case py_getitem x f of Inl e \<Rightarrow> Inl e | Inr v \<Rightarrow> Inr (Some v))"
  by (induction pre) (auto simp: absent_def split: sum.splits)

lemma py_split_takeWhile:
  "\<exists>rest. py_split sep s = takeWhile (\<lambda>c. c \<noteq> sep) s # rest"
  by (induction s) auto

lemma split0_str: "split0 sep (JStr s) = Inr (takeWhile (\<lambda>c. c \<noteq> sep) s)"
  using py_split_takeWhile [of sep s] by (auto simp: split0_def)

lemma default_name_found:
  assumes "absent site_id spre" and "py_getitem s ''id'' = Inr (JStr site_id)"
      and "py_getitem s ''name'' = Inr (JStr site_name)"
      and "absent antennaId apre" and "py_getitem a ''id'' = Inr (JStr antennaId)"
      and "py_getitem a ''antenna'' = Inr (JStr antenna_name)"
  shows "default_name upper (JArr (spre @ s # spost)) (JArr (apre @ a # apost)) site_id antennaId azimuth freq =
           Inr (''AP-'' @ takeWhile (\<lambda>c. c \<noteq> CHR ''-'') antenna_name @ ''-'' @ str_num azimuth @ ''-''
                @ takeWhile (\<lambda>c. c \<noteq> CHR ''.'') (str_num freq) @ '' GHZ.'' @ upper site_name)"
  using assms
  by (simp add: default_name_def py_iter_def lookup_first format_name_def local_var_def split0_str
      upper_of_def)

text \<open>
  Claim C3, as amended. In a call of \<^verbatim>\<open>create_radio\<close> without a name, let the fetched
  list of sites have an entry with the wanted id, every entry before the first such entry
  having an \<^verbatim>\<open>id\<close>, and let that first entry have a string under \<^verbatim>\<open>name\<close>; and
  likewise the fetched antennas, with \<^verbatim>\<open>antenna\<close>. Then the request after the two
  fetches is the POST to \<^verbatim>\<open>radio/{site_id}\<close>, and the \<^verbatim>\<open>name\<close> in its JSON body is
  \<^verbatim>\<open>AP-{antennaPrefix}-{azimuth}-{freqInteger} GHZ.{SITENAME}\<close>: the antenna name up to
  its first \<^verbatim>\<open>-\<close>, \<^verbatim>\<open>str(azimuth)\<close>, \<^verbatim>\<open>str(freq)\<close> up to its first \<^verbatim>\<open>.\<close>, and
  the site name in upper case.
\<close>

theorem default_radio_name:
  assumes "get_antennas srv freq w = (Inr (JArr ants), w1)"
      and "get_sites srv w1 = (Inr (JArr sts), w2)"
      and "radioName kw = None"
      and "sts = spre @ s # spost" and "absent site_id spre"
      and "py_getitem s ''id'' = Inr (JStr site_id)"
      and "py_getitem s ''name'' = Inr (JStr site_name)"
      and "ants = apre @ a # apost" and "absent antennaId apre"
      and "py_getitem a ''id'' = Inr (JStr antennaId)"
      and "py_getitem a ''antenna'' = Inr (JStr antenna_name)"
  shows "\<exists>body. sent (snd (create_radio upper srv site_id freq antennaId azimuth kw w)) =
             sent w2 @
             [\<lparr>rq_verb = POST, rq_url = base_endpoint (self w) @ ''radio/'' @ site_id,
               rq_headers = headers (self w), rq_params = [],
               rq_body = JsonBody (JObj body)\<rparr>]
          \<and> map_of body ''name'' =
              Some (JStr (''AP-'' @ takeWhile (\<lambda>c. c \<noteq> CHR ''-'') antenna_name @ ''-'' @ str_num azimuth @ ''-''
                @ takeWhile (\<lambda>c. c \<noteq> CHR ''.'') (str_num freq) @ '' GHZ.'' @ upper site_name))"
proof -
  let ?name = "''AP-'' @ takeWhile (\<lambda>c. c \<noteq> CHR ''-'') antenna_name @ ''-'' @ str_num azimuth @ ''-''
                @ takeWhile (\<lambda>c. c \<noteq> CHR ''.'') (str_num freq) @ '' GHZ.'' @ upper site_name"
  have "(case radioName kw of None \<Rightarrow> default_name upper (JArr sts) (JArr ants) site_id antennaId azimuth freq
           | Some n \<Rightarrow> Inr n) = Inr ?name"
    using default_name_found [OF assms(5-7) assms(9-11)] assms(3,4,8) by simp
  from create_radio_post [OF assms(1,2) this]
  show ?thesis
    by (simp add: authorized_def radio_data_def)
qed

text \<open>
  The example of the specification: antenna \<^verbatim>\<open>HPA-90\<close>, azimuth 120, frequency 5.8 and
  site \<^verbatim>\<open>denver\<close> give \<^verbatim>\<open>AP-HPA-120-5 GHZ.DENVER\<close>.
\<close>

theorem default_radio_name_witness:
  "\<exists>body. sent (snd (create_radio ascii_upper demo_server ''s1'' (PFloat ''5.8'') ''a7'' (PInt 120) required_only demo_world)) =
       [\<lparr>rq_verb = GET, rq_url = api_v1 @ ''antennas'',
           rq_headers = [(''Authorization'', ''Bearer t0k'')],
           rq_params = [(''frequency'', JNum (PFloat ''5.8''))], rq_body = NoBody\<rparr>,
        \<lparr>rq_verb = GET, rq_url = api_v1 @ ''sites'',
           rq_headers = [(''Authorization'', ''Bearer t0k'')], rq_params = [],
           rq_body = NoBody\<rparr>,
        \<lparr>rq_verb = POST, rq_url = api_v1 @ ''radio/s1'',
         rq_headers = [(''Authorization'', ''Bearer t0k'')], rq_params = [],
         rq_body = JsonBody (JObj body)\<rparr>]
     \<and> map_of body ''name'' = Some (JStr ''AP-HPA-120-5 GHZ.DENVER'')"
proof -
  have "\<exists>body. sent (snd (create_radio ascii_upper demo_server ''s1'' (PFloat ''5.8'') ''a7'' (PInt 120) required_only demo_world)) =
             sent (demo_world\<lparr>sent := [(authorized demo_world GET ''antennas'' NoBody)\<lparr>rq_params := [(''frequency'', JNum (PFloat ''5.8''))]\<rparr>,
                         authorized demo_world GET ''sites'' NoBody]\<rparr>) @
             [\<lparr>rq_verb = POST, rq_url = base_endpoint (self demo_world) @ ''radio/'' @ ''s1'',
               rq_headers = headers (self demo_world), rq_params = [],
               rq_body = JsonBody (JObj body)\<rparr>]
          \<and> map_of body ''name'' =
              Some (JStr (''AP-'' @ takeWhile (\<lambda>c. c \<noteq> CHR ''-'') ''HPA-90'' @ ''-'' @ str_num (PInt 120) @ ''-''
                @ takeWhile (\<lambda>c. c \<noteq> CHR ''.'') (str_num (PFloat ''5.8'')) @ '' GHZ.'' @ ascii_upper ''denver''))"
    by (rule default_radio_name [OF demo_antennas demo_fetched, where spre = "[]" and s = denver
          and spost = "[]" and apre = "[]" and a = hpa90 and apost = "[]"])
       (simp_all add: required_only_def absent_def denver_def hpa90_def py_getitem_def)
  then show ?thesis
    by (simp add: str_num_def str_int_def str_nat.simps digit_char_def ascii_upper_def upper_char_def
        demo_world_def demo_client_def authorized_def)
qed

text \<open>
  The claim as stated fails on lists in which the ids occur. With an antenna whose name
  is \<^verbatim>\<open>null\<close>, \<^verbatim>\<open>antenna_name.split\<close> raises \<^verbatim>\<open>AttributeError\<close>; with a site without
  \<^verbatim>\<open>id\<close> ahead of the wanted one, the loop itself raises \<^verbatim>\<open>KeyError\<close>. Neither is
  caught, and in both cases the call ends after the two fetches: no POST, so no name, is
  sent.
\<close>

theorem default_radio_name_counterexample:
  "fst (get_antennas null_name_server (PFloat ''5.8'') demo_world)
     = Inr (JArr [JObj [(''id'', JStr ''a7''), (''antenna'', JNull)]])
   \<and> create_radio ascii_upper null_name_server ''s1'' (PFloat ''5.8'') ''a7'' (PInt 120) required_only demo_world =
       (Inl AttributeError,
        \<lparr>self = demo_client,
        sent = [\<lparr>rq_verb = GET, rq_url = api_v1 @ ''antennas'',
           rq_headers = [(''Authorization'', ''Bearer t0k'')],
           rq_params = [(''frequency'', JNum (PFloat ''5.8''))], rq_body = NoBody\<rparr>,
          \<lparr>rq_verb = GET, rq_url = api_v1 @ ''sites'',
           rq_headers = [(''Authorization'', ''Bearer t0k'')], rq_params = [],
           rq_body = NoBody\<rparr>]\<rparr>)
   \<and> fst (get_sites ragged_server demo_world)
       = Inr (JArr [JObj [(''name'', JStr ''depot'')],
                    JObj [(''id'', JStr ''s1''), (''name'', JStr ''denver'')]])
   \<and> create_radio ascii_upper ragged_server ''s1'' (PFloat ''5.8'') ''a7'' (PInt 120) required_only demo_world =
       (Inl KeyError,
        \<lparr>self = demo_client,
        sent = [\<lparr>rq_verb = GET, rq_url = api_v1 @ ''antennas'',
           rq_headers = [(''Authorization'', ''Bearer t0k'')],
           rq_params = [(''frequency'', JNum (PFloat ''5.8''))], rq_body = NoBody\<rparr>,
          \<lparr>rq_verb = GET, rq_url = api_v1 @ ''sites'',
           rq_headers = [(''Authorization'', ''Bearer t0k'')], rq_params = [],
           rq_body = NoBody\<rparr>]\<rparr>)"
  by (simp add: create_radio_def get_antennas_eq get_sites_eq demo_world_def demo_client_def
      authorized_def null_name_server_def ragged_server_def table_server_def demo_table_def
      decoded_def raise_for_status_def response_json_def objects_def py_get_def
      required_only_def default_name_def py_iter_def denver_def hpa90_def py_getitem_def
      format_name_def local_var_def split0_def reraise_def)

section \<open>A lookup that finds nothing\<close>






section \<open>Headers, tokens and lists\<close>

lemma invoke_requests:
  "\<exists>new. sent (snd (invoke upper srv m w)) = sent w @ new
         \<and> (\<forall>rq\<in>set new. rq_headers rq = headers (self w) \<and> json_or_none (rq_body rq))"
proof (cases m)
  case (Create_radio site_id freq antennaId azimuth kw)
  from create_radio_cases [where upper = upper and srv = srv and site_id = site_id and freq = freq and antennaId = antennaId and azimuth = azimuth and kw = kw and w = w]
  show ?thesis
    unfolding Create_radio
    by (elim disjE exE conjE) (simp_all add: authorized_def json_or_none_def)
qed (simp_all add: simple_defs request_json_eq authorized_def json_or_none_def)

lemma list_call_result:
  assumes "list_call m"
  shows "\<exists>rq. sent (snd (invoke upper srv m w)) = sent w @ [rq]
            \<and> rq_verb rq = GET \<and> rq_headers rq = headers (self w) \<and> rq_body rq = NoBody
            \<and> (\<forall>v. objects (decoded (srv (sent w @ [rq]))) = Inr v \<longrightarrow> fst (invoke upper srv m w) = Inr v)
            \<and> (objects (decoded (srv (sent w @ [rq]))) = Inl AttributeError
                 \<longrightarrow> fst (invoke upper srv m w) = Inl AttributeError)"
  using assms
  by (cases m) (simp_all add: list_call_def simple_defs request_json_eq authorized_def reraise_def)

text \<open>
  Claim C10, as amended. When the response to a list-returning method is 2xx and its
  body decodes to a JSON object without the key \<^verbatim>\<open>objects\<close>, the method returns the
  empty list, having issued its one request.
\<close>

theorem objects_default:
  assumes "list_call m"
      and "success (srv (sent (snd (invoke upper srv m w)))) (JObj kvs)"
      and "map_of kvs ''objects'' = None"
  shows "fst (invoke upper srv m w) = Inr (JArr [])
       \<and> (\<exists>rq. sent (snd (invoke upper srv m w)) = sent w @ [rq])"
proof -
  from list_call_result [OF assms(1), where srv = srv and w = w and upper = upper] obtain rq
    where rq: "sent (snd (invoke upper srv m w)) = sent w @ [rq]"
      and r: "\<forall>v. objects (decoded (srv (sent w @ [rq]))) = Inr v \<longrightarrow> fst (invoke upper srv m w) = Inr v"
    by blast
  from assms(2) rq have "decoded (srv (sent w @ [rq])) = Inr (JObj kvs)"
    by (simp add: decoded_success)
  with assms(3) have "objects (decoded (srv (sent w @ [rq]))) = Inr (JArr [])"
    by (simp add: objects_Inr)
  with r rq show ?thesis by blast
qed

theorem objects_default_witness:
  "fst (invoke ascii_upper demo_server Get_subscriptions demo_world) = Inr (JArr [])
   \<and> (\<exists>rq. sent (snd (invoke ascii_upper demo_server Get_subscriptions demo_world)) = sent demo_world @ [rq])"
  by (rule objects_default [where kvs = "[(''count'', JNum (PInt 0))]"])
     (simp_all add: list_call_def get_subscriptions_def request_json_eq demo_world_def demo_client_def
        authorized_def demo_server_def table_server_def demo_table_def success_def)

text \<open>
  The claim as stated fails for a body that is JSON but not an object: a 2xx response
  whose body is the array \<^verbatim>\<open>[]\<close> has no key \<^verbatim>\<open>objects\<close>, and \<^verbatim>\<open>get_sites\<close> raises
  \<^verbatim>\<open>AttributeError\<close> on it, for a list has no method \<^verbatim>\<open>get\<close>.
\<close>

theorem objects_default_counterexample:
  "success (array_server (sent demo_world @ [authorized demo_world GET ''sites'' NoBody])) (JArr [])
   \<and> invoke ascii_upper array_server Get_sites demo_world =
       (Inl AttributeError, demo_world\<lparr>sent := sent demo_world @ [authorized demo_world GET ''sites'' NoBody]\<rparr>)"
  by (simp add: get_sites_eq demo_world_def demo_client_def authorized_def array_server_def
      table_server_def success_def decoded_def raise_for_status_def response_json_def objects_def
      py_get_def reraise_def)

lemma decoded_Inr:
  assumes "decoded out = Inr v"
  shows "\<exists>r. out = Returned r \<and> \<not> (400 \<le> status_code r \<and> status_code r < 600) \<and> content r = Inr v"
  using assms
  by (cases out) (auto simp: decoded_def raise_for_status_def response_json_def split: if_splits sum.splits)

lemma decoded_error_cases:
  assumes "decoded out = Inl e"
  shows "failed out \<or> (\<exists>r d. out = Returned r \<and> content r = Inl d)"
  using assms
  by (cases out) (auto simp: decoded_def failed_def raise_for_status_def response_json_def split: if_splits sum.splits)

lemma authenticate_unauthenticated:
  "authenticate srv (unauthenticated cid secret rqs) =
     (reraise ''Authentication failed''
        (case decoded (srv (rqs @ [token_request cid secret])) of
           Inl e \<Rightarrow> Inl e | Inr v \<Rightarrow> py_get v ''access_token'' JNull),
      (unauthenticated cid secret rqs)\<lparr>sent := rqs @ [token_request cid secret]\<rparr>)"
  by (simp add: authenticate_eq unauthenticated_def token_request_def)

lemma init_with_token:
  assumes "(case decoded (srv (rqs @ [token_request cid secret])) of
              Inl e \<Rightarrow> Inl e | Inr v \<Rightarrow> py_get v ''access_token'' JNull) = Inr t"
  shows "init srv cid secret rqs =
     (let w3 = \<lparr>self = \<lparr>client_id = cid, client_secret = secret, base_endpoint = api_v1,
                         token = t, headers = bearer t, sites = JNull, predictions = JNull,
                         users = JNull\<rparr>,
                 sent = rqs @ [token_request cid secret]\<rparr> in
      case get_sites srv w3 of
             (Inl e, w4) \<Rightarrow> (Inl e, sent w4)
           | (Inr s, w4) \<Rightarrow>
               (case get_predictions srv (w4\<lparr>self := (self w4)\<lparr>sites := s\<rparr>\<rparr>) of
                  (Inl e, w5) \<Rightarrow> (Inl e, sent w5)
                | (Inr p, w5) \<Rightarrow>
                    (case get_users srv (w5\<lparr>self := (self w5)\<lparr>predictions := p\<rparr>\<rparr>) of
                       (Inl e, w6) \<Rightarrow> (Inl e, sent w6)
                     | (Inr u, w6) \<Rightarrow> (Inr ((self w6)\<lparr>users := u\<rparr>), sent w6))))"
  using assms
  by (simp add: init_def authenticate_eq token_request_def bearer_def Let_def)

lemma init_without_token:
  assumes "(case decoded (srv (rqs @ [token_request cid secret])) of
              Inl e \<Rightarrow> Inl e | Inr v \<Rightarrow> py_get v ''access_token'' JNull) = Inl e"
  shows "init srv cid secret rqs =
           (reraise ''Authentication failed'' (Inl e), rqs @ [token_request cid secret])"
  using assms
  by (simp add: init_def authenticate_eq token_request_def Let_def reraise_def split: exn.splits)

lemma init_first_requests:
  assumes "(case decoded (srv (rqs @ [token_request cid secret])) of
              Inl e \<Rightarrow> Inl e | Inr v \<Rightarrow> py_get v ''access_token'' JNull) = Inr t"
  shows "\<exists>rest. snd (init srv cid secret rqs) =
           rqs @ token_request cid secret # api_request t GET ''sites'' NoBody # rest"
  unfolding init_with_token [where srv = srv and rqs = rqs and cid = cid and secret = secret, OF assms]
  by (auto simp: Let_def get_sites_eq get_predictions_eq get_users_eq authorized_def api_request_def
      split: prod.splits sum.splits)

lemma init_success:
  assumes "init srv cid secret rqs = (Inr c, rqs')"
  shows "(case decoded (srv (rqs @ [token_request cid secret])) of
              Inl e \<Rightarrow> Inl e | Inr v \<Rightarrow> py_get v ''access_token'' JNull) = Inr (token c)
       \<and> headers c = bearer (token c)
       \<and> rqs' = rqs @ [token_request cid secret, api_request (token c) GET ''sites'' NoBody,
                        api_request (token c) GET ''predictions'' NoBody,
                        api_request (token c) GET ''users'' NoBody]"
proof (cases "case decoded (srv (rqs @ [token_request cid secret])) of
              Inl e \<Rightarrow> Inl e | Inr v \<Rightarrow> py_get v ''access_token'' JNull")
  case (Inl e)
  from init_without_token [where srv = srv and rqs = rqs and cid = cid and secret = secret, OF Inl] assms show ?thesis
    by (simp add: reraise_def split: exn.splits)
next
  case (Inr t)
  from assms show ?thesis
    unfolding init_with_token [where srv = srv and rqs = rqs and cid = cid and secret = secret, OF Inr] Inr
    by (auto simp: Let_def get_sites_eq get_predictions_eq get_users_eq authorized_def api_request_def
        split: prod.splits sum.splits)
qed

lemma token_source:
  assumes "(case decoded out of Inl e \<Rightarrow> Inl e | Inr v \<Rightarrow> py_get v ''access_token'' JNull) = Inr t"
  shows "\<exists>r kvs. out = Returned r \<and> \<not> (400 \<le> status_code r \<and> status_code r < 600)
           \<and> content r = Inr (JObj kvs)
           \<and> t = (case map_of kvs ''access_token'' of None \<Rightarrow> JNull | Some x \<Rightarrow> x)"
proof -
  from assms obtain v where v: "decoded out = Inr v" and g: "py_get v ''access_token'' JNull = Inr t"
    by (cases "decoded out") simp_all
  from g obtain kvs where "v = JObj kvs"
    by (cases v) (simp_all add: py_get_def)
  with g decoded_Inr [OF v] show ?thesis
    by (auto simp: py_get_def)
qed

text \<open>
  Claim C7, as amended. For a client that construction has returned: its token is the
  \<^verbatim>\<open>access_token\<close> of the JSON object that answered the authentication request
  (\<^verbatim>\<open>None\<close> if there is none); the three fetches of construction, and every request
  that any public method issues on the client, carry exactly the header
  \<^verbatim>\<open>Authorization: Bearer <token>\<close> and have no body or a JSON body; and a
  list-returning method whose response is 2xx with a JSON object holding \<open>l\<close> under
  \<^verbatim>\<open>objects\<close> returns \<open>l\<close>.
\<close>

theorem requests_carry_bearer:
  assumes "init srv cid secret rqs = (Inr c, rqs')"
  shows "(\<exists>r kvs. srv (rqs @ [token_request cid secret]) = Returned r
            \<and> content r = Inr (JObj kvs)
            \<and> token c = (case map_of kvs ''access_token'' of None \<Rightarrow> JNull | Some x \<Rightarrow> x))
       \<and> rqs' = rqs @ [token_request cid secret, api_request (token c) GET ''sites'' NoBody,
                        api_request (token c) GET ''predictions'' NoBody,
                        api_request (token c) GET ''users'' NoBody]
       \<and> (self w = c \<longrightarrow>
            (\<exists>new. sent (snd (invoke upper srv' m w)) = sent w @ new
               \<and> (\<forall>rq\<in>set new. rq_headers rq = [(''Authorization'', ''Bearer '' @ py_str (token c))]
                                 \<and> json_or_none (rq_body rq))))
       \<and> (list_call m \<longrightarrow> listed (srv' (sent (snd (invoke upper srv' m w)))) l
             \<longrightarrow> fst (invoke upper srv' m w) = Inr l)"
proof (intro conjI impI)
  note s = init_success [OF assms]
  from token_source [of "srv (rqs @ [token_request cid secret])" "token c"] s
  show "\<exists>r kvs. srv (rqs @ [token_request cid secret]) = Returned r
            \<and> content r = Inr (JObj kvs)
            \<and> token c = (case map_of kvs ''access_token'' of None \<Rightarrow> JNull | Some x \<Rightarrow> x)"
    by blast
  from s show "rqs' = rqs @ [token_request cid secret, api_request (token c) GET ''sites'' NoBody,
                        api_request (token c) GET ''predictions'' NoBody,
                        api_request (token c) GET ''users'' NoBody]"
    by simp
  {
    assume "self w = c"
    with s have "headers (self w) = [(''Authorization'', ''Bearer '' @ py_str (token c))]"
      by (simp add: bearer_def)
    with invoke_requests [where srv = srv' and m = m and w = w and upper = upper]
    show "\<exists>new. sent (snd (invoke upper srv' m w)) = sent w @ new
               \<and> (\<forall>rq\<in>set new. rq_headers rq = [(''Authorization'', ''Bearer '' @ py_str (token c))]
                                 \<and> json_or_none (rq_body rq))"
      by simp
  }
  {
    assume lc: "list_call m" and l: "listed (srv' (sent (snd (invoke upper srv' m w)))) l"
    from list_call_result [OF lc, where srv = srv' and w = w and upper = upper] obtain rq
      where rq: "sent (snd (invoke upper srv' m w)) = sent w @ [rq]"
        and r: "\<forall>v. objects (decoded (srv' (sent w @ [rq]))) = Inr v \<longrightarrow> fst (invoke upper srv' m w) = Inr v"
      by blast
    from l rq have "objects (decoded (srv' (sent w @ [rq]))) = Inr l"
      by (simp add: listed_objects)
    with r show "fst (invoke upper srv' m w) = Inr l" by blast
  }
qed

lemma demo_init:
  "init demo_server ''id'' ''secret'' [] =
      (Inr demo_client,
       [token_request ''id'' ''secret'', api_request (JStr ''t0k'') GET ''sites'' NoBody,
        api_request (JStr ''t0k'') GET ''predictions'' NoBody,
        api_request (JStr ''t0k'') GET ''users'' NoBody])"
proof -
  have "(case decoded (demo_server ([] @ [token_request ''id'' ''secret''])) of
              Inl e \<Rightarrow> Inl e | Inr v \<Rightarrow> py_get v ''access_token'' JNull) = Inr (JStr ''t0k'')"
    by (simp add: demo_server_def table_server_def demo_table_def decoded_def raise_for_status_def
        response_json_def py_get_def)
  from init_with_token [where srv = demo_server and rqs = "[]" and cid = "''id''" and secret = "''secret''", OF this]
  show ?thesis
    by (simp add: Let_def get_sites_eq get_predictions_eq get_users_eq authorized_def api_request_def
        bearer_def py_str_def demo_client_def demo_server_def table_server_def demo_table_def
        decoded_def raise_for_status_def response_json_def objects_def py_get_def)
qed

theorem requests_carry_bearer_witness:
  "sent (snd (invoke ascii_upper demo_server (Rename_prediction ''p1'' ''Q3-Plan'') demo_world)) =
     [\<lparr>rq_verb = PATCH, rq_url = api_v1 @ ''prediction/p1/rename'',
       rq_headers = [(''Authorization'', ''Bearer t0k'')], rq_params = [],
       rq_body = JsonBody (JObj [(''name'', JStr ''Q3-Plan'')])\<rparr>]
   \<and> fst (invoke ascii_upper demo_server Get_users demo_world) = Inr (JArr [JObj [(''email'', JStr ''a@b.c'')]])"
proof -
  have u: "listed (demo_server (sent (snd (invoke ascii_upper demo_server Get_users demo_world))))
             (JArr [JObj [(''email'', JStr ''a@b.c'')]])"
    by (simp add: get_users_eq demo_world_def demo_client_def authorized_def demo_server_def
        table_server_def demo_table_def listed_def)
  have "self demo_world = demo_client"
    by (simp add: demo_world_def)
  with requests_carry_bearer [OF demo_init, where upper = ascii_upper and w = demo_world and srv' = demo_server
         and m = "Rename_prediction ''p1'' ''Q3-Plan''"]
  have "\<exists>new. sent (snd (invoke ascii_upper demo_server (Rename_prediction ''p1'' ''Q3-Plan'') demo_world))
                 = sent demo_world @ new
          \<and> (\<forall>rq\<in>set new. rq_headers rq = [(''Authorization'', ''Bearer '' @ py_str (token demo_client))]
                            \<and> json_or_none (rq_body rq))"
    by blast
  moreover from requests_carry_bearer [OF demo_init, where upper = ascii_upper and w = demo_world and srv' = demo_server
         and m = Get_users and l = "JArr [JObj [(''email'', JStr ''a@b.c'')]]"] u
  have "fst (invoke ascii_upper demo_server Get_users demo_world) = Inr (JArr [JObj [(''email'', JStr ''a@b.c'')]])"
    by (simp add: list_call_def)
  ultimately show ?thesis
    by (auto simp: rename_prediction_def request_json_eq demo_world_def demo_client_def authorized_def)
qed

text \<open>
  The claim as stated fails for the first request of every client: the authentication
  request carries no \<^verbatim>\<open>Authorization\<close> header, and its body is the form-encoded
  credentials, not JSON.
\<close>

theorem requests_carry_bearer_counterexample:
  "hd (snd (init demo_server ''id'' ''secret'' [])) = token_request ''id'' ''secret''
   \<and> rq_headers (token_request ''id'' ''secret'') = []
   \<and> rq_body (token_request ''id'' ''secret'')
       = FormData [(''client_id'', ''id''), (''client_secret'', ''secret'')]"
  by (simp add: demo_init) (simp add: token_request_def)

lemma tokenless_decoded:
  assumes "tokenless out"
  shows "(case decoded out of Inl e \<Rightarrow> Inl e | Inr v \<Rightarrow> py_get v ''access_token'' JNull) = Inr JNull"
  using assms
  by (cases out)
     (auto simp: tokenless_def decoded_def raise_for_status_def response_json_def py_get_def
        split: sum.splits json.splits)

lemma bearer_None: "bearer JNull = [(''Authorization'', ''Bearer None'')]"
  by (simp add: bearer_def py_str_def)

text \<open>
  Claim C8, as amended. When the authentication request is answered 2xx with a JSON
  object that has no \<^verbatim>\<open>access_token\<close>, \<^verbatim>\<open>_authenticate\<close> returns \<^verbatim>\<open>None\<close> without
  raising, construction goes on to fetch the sites with the header
  \<^verbatim>\<open>Authorization: Bearer None\<close>, and a client that construction returns sends that
  header with every request. \<^verbatim>\<open>_authenticate\<close> raises its \<^verbatim>\<open>RuntimeError\<close> only when
  the call raised, the status is 4xx or 5xx, or the body is not JSON.
\<close>

theorem missing_token:
  "(tokenless (srv (rqs @ [token_request cid secret])) \<longrightarrow>
      authenticate srv (unauthenticated cid secret rqs) =
        (Inr JNull, (unauthenticated cid secret rqs)\<lparr>sent := rqs @ [token_request cid secret]\<rparr>)
      \<and> (\<exists>rest. snd (init srv cid secret rqs) =
            rqs @ token_request cid secret # api_request JNull GET ''sites'' NoBody # rest)
      \<and> rq_headers (api_request JNull GET ''sites'' NoBody) = [(''Authorization'', ''Bearer None'')]
      \<and> (fst (init srv cid secret rqs) = Inr c \<longrightarrow>
            headers c = [(''Authorization'', ''Bearer None'')]
            \<and> snd (init srv cid secret rqs) =
                rqs @ [token_request cid secret, api_request JNull GET ''sites'' NoBody,
                       api_request JNull GET ''predictions'' NoBody,
                       api_request JNull GET ''users'' NoBody]
            \<and> (self w = c \<longrightarrow>
                 (\<exists>new. sent (snd (invoke upper srv' m w)) = sent w @ new
                    \<and> (\<forall>rq\<in>set new. rq_headers rq = [(''Authorization'', ''Bearer None'')])))))
   \<and> (fst (authenticate srv (unauthenticated cid secret rqs)) = Inl (RuntimeError msg) \<longrightarrow>
        failed (srv (rqs @ [token_request cid secret]))
        \<or> (\<exists>r d. srv (rqs @ [token_request cid secret]) = Returned r \<and> content r = Inl d))"
proof (intro conjI impI)
  assume t: "tokenless (srv (rqs @ [token_request cid secret]))"
  note d = tokenless_decoded [OF t]
  show "authenticate srv (unauthenticated cid secret rqs) =
        (Inr JNull, (unauthenticated cid secret rqs)\<lparr>sent := rqs @ [token_request cid secret]\<rparr>)"
    by (simp add: authenticate_unauthenticated d)
  show "\<exists>rest. snd (init srv cid secret rqs) =
            rqs @ token_request cid secret # api_request JNull GET ''sites'' NoBody # rest"
    by (rule init_first_requests [where srv = srv and rqs = rqs and cid = cid and secret = secret, OF d])
  show "rq_headers (api_request JNull GET ''sites'' NoBody) = [(''Authorization'', ''Bearer None'')]"
    by (simp add: api_request_def bearer_None)
  assume c: "fst (init srv cid secret rqs) = Inr c"
  then have "init srv cid secret rqs = (Inr c, snd (init srv cid secret rqs))"
    by (simp add: prod_eq_iff)
  from init_success [OF this] d have tc: "token c = JNull" and hc: "headers c = bearer JNull"
    and rq: "snd (init srv cid secret rqs) =
                rqs @ [token_request cid secret, api_request JNull GET ''sites'' NoBody,
                       api_request JNull GET ''predictions'' NoBody,
                       api_request JNull GET ''users'' NoBody]"
    by simp_all
  from hc show "headers c = [(''Authorization'', ''Bearer None'')]"
    by (simp add: bearer_None)
  from rq show "snd (init srv cid secret rqs) =
                rqs @ [token_request cid secret, api_request JNull GET ''sites'' NoBody,
                       api_request JNull GET ''predictions'' NoBody,
                       api_request JNull GET ''users'' NoBody]" .
  assume "self w = c"
  with hc have "headers (self w) = [(''Authorization'', ''Bearer None'')]"
    by (simp add: bearer_None)
  with invoke_requests [where srv = srv' and m = m and w = w and upper = upper]
  show "\<exists>new. sent (snd (invoke upper srv' m w)) = sent w @ new
                    \<and> (\<forall>rq\<in>set new. rq_headers rq = [(''Authorization'', ''Bearer None'')])"
    by auto
next
  assume a: "fst (authenticate srv (unauthenticated cid secret rqs)) = Inl (RuntimeError msg)"
  show "failed (srv (rqs @ [token_request cid secret]))
        \<or> (\<exists>r d. srv (rqs @ [token_request cid secret]) = Returned r \<and> content r = Inl d)"
  proof (cases "decoded (srv (rqs @ [token_request cid secret]))")
    case (Inl e)
    then show ?thesis by (rule decoded_error_cases)
  next
    case (Inr v)
    with a show ?thesis
      by (cases v) (simp_all add: authenticate_unauthenticated py_get_def reraise_def)
  qed
qed

lemma tokenless_init:
  "init tokenless_server ''id'' ''secret'' [] =
      (Inr (demo_client\<lparr>token := JNull, headers := [(''Authorization'', ''Bearer None'')]\<rparr>),
       [token_request ''id'' ''secret'', api_request JNull GET ''sites'' NoBody,
        api_request JNull GET ''predictions'' NoBody,
        api_request JNull GET ''users'' NoBody])"
proof -
  have "(case decoded (tokenless_server ([] @ [token_request ''id'' ''secret''])) of
              Inl e \<Rightarrow> Inl e | Inr v \<Rightarrow> py_get v ''access_token'' JNull) = Inr JNull"
    by (simp add: tokenless_server_def table_server_def demo_table_def decoded_def raise_for_status_def
        response_json_def py_get_def)
  from init_with_token [where srv = tokenless_server and rqs = "[]" and cid = "''id''" and secret = "''secret''", OF this]
  show ?thesis
    by (simp add: Let_def get_sites_eq get_predictions_eq get_users_eq authorized_def api_request_def
        bearer_def py_str_def demo_client_def tokenless_server_def table_server_def demo_table_def
        decoded_def raise_for_status_def response_json_def objects_def py_get_def)
qed

theorem missing_token_witness:
  "authenticate tokenless_server (unauthenticated ''id'' ''secret'' []) =
     (Inr JNull, (unauthenticated ''id'' ''secret'' [])\<lparr>sent := [token_request ''id'' ''secret'']\<rparr>)
   \<and> snd (init tokenless_server ''id'' ''secret'' []) =
        [token_request ''id'' ''secret'', api_request JNull GET ''sites'' NoBody,
         api_request JNull GET ''predictions'' NoBody, api_request JNull GET ''users'' NoBody]
   \<and> (\<exists>new. sent (snd (invoke ascii_upper demo_server Get_credits
                 \<lparr>self = demo_client\<lparr>token := JNull, headers := [(''Authorization'', ''Bearer None'')]\<rparr>,
                  sent = []\<rparr>)) = new
          \<and> list_all (\<lambda>rq. rq_headers rq = [(''Authorization'', ''Bearer None'')]) new \<and> new \<noteq> [])
   \<and> (failed (table_server [] [token_request ''id'' ''secret''])
        \<or> (\<exists>r d. table_server [] [token_request ''id'' ''secret''] = Returned r \<and> content r = Inl d))"
proof -
  let ?c = "demo_client\<lparr>token := JNull, headers := [(''Authorization'', ''Bearer None'')]\<rparr>"
  let ?w = "\<lparr>self = ?c, sent = []\<rparr>"
  have t: "tokenless (tokenless_server ([] @ [token_request ''id'' ''secret'']))"
    by (simp add: tokenless_def tokenless_server_def table_server_def demo_table_def)
  have i: "fst (init tokenless_server ''id'' ''secret'' []) = Inr ?c"
    by (simp add: tokenless_init)
  have w: "self ?w = ?c"
    by simp
  note m = missing_token [where srv = tokenless_server and rqs = "[]" and cid = "''id''"
      and secret = "''secret''" and c = ?c and w = ?w and srv' = demo_server and m = Get_credits and upper = ascii_upper]
  from m t have 1: "authenticate tokenless_server (unauthenticated ''id'' ''secret'' []) =
     (Inr JNull, (unauthenticated ''id'' ''secret'' [])\<lparr>sent := [token_request ''id'' ''secret'']\<rparr>)"
    by simp
  from m t i have 2: "snd (init tokenless_server ''id'' ''secret'' []) =
        [token_request ''id'' ''secret'', api_request JNull GET ''sites'' NoBody,
         api_request JNull GET ''predictions'' NoBody, api_request JNull GET ''users'' NoBody]"
    by simp
  from m t i w have "\<exists>new. sent (snd (invoke ascii_upper demo_server Get_credits ?w)) = sent ?w @ new
                    \<and> (\<forall>rq\<in>set new. rq_headers rq = [(''Authorization'', ''Bearer None'')])"
    by blast
  then have 3: "\<exists>new. sent (snd (invoke ascii_upper demo_server Get_credits ?w)) = new
          \<and> list_all (\<lambda>rq. rq_headers rq = [(''Authorization'', ''Bearer None'')]) new \<and> new \<noteq> []"
    by (auto simp: list_all_iff get_credits_def request_json_eq)
  have "fst (authenticate (table_server []) (unauthenticated ''id'' ''secret'' []))
          = Inl (RuntimeError (''Authentication failed: 404 Client Error: Not Found for url: ''
                                @ api_v1 @ ''oauth/token''))"
    by (simp add: authenticate_unauthenticated table_server_def decoded_def raise_for_status_def
        token_request_def str_nat.simps digit_char_def)
  with missing_token [where srv = "table_server []" and rqs = "[]" and cid = "''id''"
      and secret = "''secret''"
      and msg = "''Authentication failed: 404 Client Error: Not Found for url: '' @ api_v1 @ ''oauth/token''"]
  have 4: "failed (table_server [] [token_request ''id'' ''secret''])
        \<or> (\<exists>r d. table_server [] [token_request ''id'' ''secret''] = Returned r \<and> content r = Inl d)"
    by simp
  from 1 2 3 4 show ?thesis by blast
qed

text \<open>
  The claim as stated fails twice. A 2xx body that is JSON but not an object (the array
  \<^verbatim>\<open>[]\<close>) has no \<^verbatim>\<open>access_token\<close>, and \<^verbatim>\<open>_authenticate\<close> raises
  \<^verbatim>\<open>AttributeError\<close> on it instead of returning \<^verbatim>\<open>None\<close>. And a 2xx body that is
  not JSON ends in the authentication error, though the call did not raise and the status
  is a success: the decoder's error is a \<^verbatim>\<open>RequestException\<close>, which the handler wraps.
\<close>

theorem missing_token_counterexample:
  "array_server [token_request ''id'' ''secret''] =
     Returned \<lparr>status_code = 200, reason = ''OK'', resp_url = api_v1 @ ''oauth/token'',
               content = Inr (JArr [])\<rparr>
   \<and> fst (authenticate array_server (unauthenticated ''id'' ''secret'' [])) = Inl AttributeError
   \<and> html_server [token_request ''id'' ''secret''] =
       Returned \<lparr>status_code = 200, reason = ''OK'', resp_url = api_v1 @ ''oauth/token'',
                 content = Inl ''Expecting value: line 1 column 1 (char 0)''\<rparr>
   \<and> fst (authenticate html_server (unauthenticated ''id'' ''secret'' []))
       = Inl (RuntimeError ''Authentication failed: Expecting value: line 1 column 1 (char 0)'')
   \<and> init html_server ''id'' ''secret'' []
       = (Inl (RuntimeError ''Authentication failed: Expecting value: line 1 column 1 (char 0)''),
          [token_request ''id'' ''secret''])"
proof -
  have "(case decoded (html_server ([] @ [token_request ''id'' ''secret''])) of
              Inl e \<Rightarrow> Inl e | Inr v \<Rightarrow> py_get v ''access_token'' JNull)
          = Inl (RequestException ''Expecting value: line 1 column 1 (char 0)'')"
    by (simp add: html_server_def table_server_def decoded_def raise_for_status_def response_json_def)
  from init_without_token [where srv = html_server and rqs = "[]" and cid = "''id''" and secret = "''secret''", OF this]
  have "init html_server ''id'' ''secret'' []
       = (Inl (RuntimeError ''Authentication failed: Expecting value: line 1 column 1 (char 0)''),
          [token_request ''id'' ''secret''])"
    by simp
  then show ?thesis
    by (simp add: authenticate_unauthenticated array_server_def html_server_def table_server_def
        decoded_def raise_for_status_def response_json_def py_get_def reraise_def)
       (simp add: token_request_def)
qed

text \<open>
  Claim C1 fails on the code at two of the methods it names. \<^verbatim>\<open>get_site_radios\<close>,
  answered 404, raises \<^verbatim>\<open>TypeError\<close> and no \<^verbatim>\<open>RuntimeError\<close>: its handler builds the
  message from \<^verbatim>\<open>self.sites[site_id]\<close>, and \<^verbatim>\<open>self.sites\<close> is a list. Were the
  snapshot a dict keyed by site id, as the handler takes it to be, an id that is not in the
  snapshot would end in \<^verbatim>\<open>KeyError\<close>. And the message of
  \<^verbatim>\<open>terminate_subscription\<close> starts with the prefix of \<^verbatim>\<open>renew_subscriptions\<close>.
\<close>

theorem error_wrapping_slips:
  "failed (demo_server (sent demo_world @ [authorized demo_world GET ''radios/s1'' NoBody]))
   \<and> get_site_radios demo_server ''s1'' demo_world =
       (Inl TypeError, demo_world\<lparr>sent := sent demo_world @ [authorized demo_world GET ''radios/s1'' NoBody]\<rparr>)
   \<and> fst (get_site_radios demo_server ''s2''
            (demo_world\<lparr>self := demo_client\<lparr>sites := JObj [(''s1'', denver)]\<rparr>\<rparr>)) = Inl KeyError
   \<and> failed (demo_server (sent demo_world @ [authorized demo_world PATCH ''subscription/s1/terminate'' NoBody]))
   \<and> fst (terminate_subscription demo_server ''s1'' demo_world) =
       Inl (RuntimeError (''Failed to renew subscription: 404 Client Error: Not Found for url: ''
                          @ api_v1 @ ''subscription/s1/terminate''))"
  by (simp add: get_site_radios_def terminate_subscription_def request_json_eq demo_world_def
      demo_client_def authorized_def demo_server_def table_server_def demo_table_def failed_def
      decoded_def raise_for_status_def objects_def py_getitem_def denver_def
      str_nat.simps digit_char_def)

section \<open>Failures of the HTTP call\<close>

lemma create_radio_failed:
  assumes "failed (srv (sent (snd (create_radio upper srv site_id freq antennaId azimuth kw w))))"
  shows "\<exists>p\<in>set [''Failed to fetch antennas'', ''Failed to fetch sites'', ''Failed to create radio''].
           \<exists>msg. fst (create_radio upper srv site_id freq antennaId azimuth kw w) = Inl (RuntimeError (p @ '': '' @ msg))"
proof -
  let ?ga = "(authorized w GET ''antennas'' NoBody)\<lparr>rq_params := [(''frequency'', JNum freq)]\<rparr>"
  let ?w1 = "w\<lparr>sent := sent w @ [?ga]\<rparr>"
  let ?gs = "authorized w GET ''sites'' NoBody"
  let ?w2 = "w\<lparr>sent := sent w @ [?ga, ?gs]\<rparr>"
  show ?thesis
  proof (cases "objects (decoded (srv (sent w @ [?ga])))")
    case (Inl e)
    then have c: "create_radio upper srv site_id freq antennaId azimuth kw w
                  = (reraise ''Failed to create radio'' (reraise ''Failed to fetch antennas'' (Inl e)), ?w1)"
      by (simp add: create_radio_def get_antennas_eq reraise_def split: exn.splits)
    with assms have "failed (srv (sent w @ [?ga]))" by simp
    from decoded_failed [OF this] Inl obtain m where "e = RequestException m"
      by auto
    with c show ?thesis by (simp add: reraise_def)
  next
    case (Inr ants)
    then have a: "get_antennas srv freq w = (Inr ants, ?w1)"
      by (simp add: get_antennas_eq)
    show ?thesis
    proof (cases "objects (decoded (srv (sent w @ [?ga, ?gs])))")
      case (Inl e)
      with a have c: "create_radio upper srv site_id freq antennaId azimuth kw w
                  = (reraise ''Failed to create radio'' (reraise ''Failed to fetch sites'' (Inl e)), ?w2)"
        by (simp add: create_radio_def get_sites_eq reraise_def split: exn.splits)
      with assms have "failed (srv (sent w @ [?ga, ?gs]))" by simp
      from decoded_failed [OF this] Inl obtain m where "e = RequestException m"
        by auto
      with c show ?thesis by (simp add: reraise_def)
    next
      case (Inr sts)
      with a have s: "get_sites srv ?w1 = (Inr sts, ?w2)"
        by (simp add: get_sites_eq)
      have nf: "\<not> failed (srv (sent w @ [?ga, ?gs]))"
      proof
        assume "failed (srv (sent w @ [?ga, ?gs]))"
        from decoded_failed [OF this] Inr show False by auto
      qed
      show ?thesis
      proof (cases "case radioName kw of None \<Rightarrow> default_name upper sts ants site_id antennaId azimuth freq
                      | Some n \<Rightarrow> Inr n")
        case (Inl e)
        with a s have "snd (create_radio upper srv site_id freq antennaId azimuth kw w) = ?w2"
          by (simp add: create_radio_def)
        with assms nf show ?thesis by simp
      next
        case (Inr name)
        note c = create_radio_post [OF a s Inr]
        from assms have "failed (srv (sent ?w2 @ [authorized w POST (''radio/'' @ site_id)
                     (JsonBody (radio_data antennaId name azimuth freq kw))]))"
          unfolding c by simp
        from decoded_failed [OF this] show ?thesis
          unfolding c by auto
      qed
    qed
  qed
qed

text \<open>
  The part of claim C1 that holds. For every public method but \<^verbatim>\<open>get_site_radios\<close>: when
  the last request of a call raised or was answered 4xx or 5xx, the call raises
  \<^verbatim>\<open>RuntimeError\<close> with a message that starts with a static prefix and a colon: the
  method's own prefix, or, for a fetch that fails inside \<^verbatim>\<open>create_radio\<close>, the prefix of
  that fetch.
\<close>

theorem failure_is_wrapped:
  assumes "\<not> radio_listing m"
      and "failed (srv (sent (snd (invoke upper srv m w))))"
  shows "\<exists>p\<in>set (prefixes m). \<exists>msg. fst (invoke upper srv m w) = Inl (RuntimeError (p @ '': '' @ msg))"
proof (cases m)
  case (Create_radio site_id freq antennaId azimuth kw)
  with create_radio_failed [where upper = upper and srv = srv and site_id = site_id and freq = freq and antennaId = antennaId and azimuth = azimuth and kw = kw and w = w] assms(2)
  show ?thesis by (simp add: prefixes_def)
next
  case (Get_site_radios s)
  with assms(1) show ?thesis by (simp add: radio_listing_def)
qed (use assms(2) in \<open>auto simp: prefixes_def simple_defs request_json_eq dest!: decoded_failed\<close>)

theorem failure_is_wrapped_witness:
  "\<exists>msg. fst (invoke ascii_upper demo_server (Delete_radio ''r404'') demo_world)
            = Inl (RuntimeError (''Failed to delete radio: '' @ msg))"
proof -
  have "failed (demo_server (sent (snd (invoke ascii_upper demo_server (Delete_radio ''r404'') demo_world))))"
    by (simp add: delete_radio_def request_json_eq demo_world_def demo_client_def authorized_def
        demo_server_def table_server_def demo_table_def failed_def)
  from failure_is_wrapped [where m = "Delete_radio ''r404''" and srv = demo_server and w = demo_world
      and upper = ascii_upper, OF _ this]
  show ?thesis
    by (simp add: radio_listing_def prefixes_def)
qed

end
